theory Spec2Isabelle
  imports Main
begin

section \<open>Python values, dictionaries and errors\<close>

text \<open>
  The exceptions a step of \<^verbatim>\<open>config_flow.py\<close> can leave with. \<open>AbortFlow\<close> carries its
  reason, \<open>KeyError\<close> the missing key.
\<close>

datatype error =
    KeyError string
  | IndexError
  | TypeError
  | AttributeError
  | RuntimeError
  | UnboundLocalError
  | AbortFlow string
  | CannotConnect
  | InvalidPath

text \<open>
  The values an options dictionary (\<^verbatim>\<open>dict[str, Any]\<close>) holds: the form schemas produce
  booleans, strings and lists of strings, the wizard itself stores a dictionary under
  \<^verbatim>\<open>sensor_precision\<close>. A Python dictionary is a finite map; \<^verbatim>\<open>d.update(e)\<close> is \<open>d ++ e\<close>.
\<close>

datatype pyval =
    VNone
  | VBool bool
  | VInt int
  | VStr string
  | VList "string list"
  | VDict "string \<Rightarrow> pyval option"

type_synonym dict = "string \<Rightarrow> pyval option"

text \<open>Python truth value testing (\<^verbatim>\<open>if x:\<close>).\<close>

fun truthy :: "pyval \<Rightarrow> bool" where
  "truthy VNone = False"
| "truthy (VBool b) = b"
| "truthy (VInt i) = (i \<noteq> 0)"
| "truthy (VStr s) = (s \<noteq> [])"
| "truthy (VList l) = (l \<noteq> [])"
| "truthy (VDict d) = (d \<noteq> Map.empty)"

text \<open>\<^verbatim>\<open>xs[i]\<close> on a list: out of range raises \<^verbatim>\<open>IndexError\<close>.\<close>

definition py_index :: "'a list \<Rightarrow> nat \<Rightarrow> error + 'a" where
  "py_index xs i = (if i < length xs then Inr (xs ! i) else Inl IndexError)"

text \<open>
  \<^verbatim>\<open>s.split(c)\<close> for a one-character separator: the pieces between the occurrences of
  \<open>c\<close>, always at least one piece.
\<close>

fun py_split :: "char \<Rightarrow> string \<Rightarrow> string list" where
  "py_split c [] = [[]]"
| "py_split c (x # xs) =
     (if x = c then [] # py_split c xs
      else (case py_split c xs of
              [] \<Rightarrow> [[x]]
            | p # ps \<Rightarrow> (x # p) # ps))"

text \<open>\<^verbatim>\<open>s.replace(c, new)\<close> for a one-character \<open>c\<close>: every occurrence is replaced.\<close>

definition py_replace :: "char \<Rightarrow> string \<Rightarrow> string \<Rightarrow> string" where
  "py_replace c new s = concat (map (\<lambda>x. if x = c then new else [x]) s)"

text \<open>\<^verbatim>\<open>s in t\<close> on two strings: \<open>s\<close> occurs in \<open>t\<close> as a contiguous piece.\<close>

fun is_substring :: "string \<Rightarrow> string \<Rightarrow> bool" where
  "is_substring s [] = (s = [])"
| "is_substring s (x # xs) = (take (length s) (x # xs) = s \<or> is_substring s xs)"

section \<open>Configuration entries, the hub and the device registry\<close>

text \<open>
  The values of a configuration record: the three setup schemas admit strings (\<^verbatim>\<open>type\<close>,
  \<^verbatim>\<open>host\<close>, \<^verbatim>\<open>mount_dir\<close>) and an integer (\<^verbatim>\<open>port\<close>).
\<close>

datatype conf_value = CStr string | CInt int

type_synonym conf = "string \<Rightarrow> conf_value option"

text \<open>\<^verbatim>\<open>str(n)\<close> for an integer, as an f-string formats it.\<close>

function digit_chars :: "nat \<Rightarrow> string" where
  "digit_chars n =
     (if n < 10 then [char_of (48 + n)]
      else digit_chars (n div 10) @ [char_of (48 + n mod 10)])"
  by pat_completeness auto
termination
  by (relation "measure (\<lambda>n. n)") auto

definition py_str :: "conf_value \<Rightarrow> string" where
  "py_str v =
     (case v of
        CStr s \<Rightarrow> s
      | CInt i \<Rightarrow> if i < 0 then CHR ''-'' # digit_chars (nat (- i)) else digit_chars (nat i))"

text \<open>
  Modelled from the spec: the constants of \<^verbatim>\<open>homeassistant.const\<close>, which is not among the
  source files; the spec names the record's keys \<open>type\<close>, \<open>host\<close> and \<open>port\<close>.
\<close>

abbreviation CONF_HOST :: string where "CONF_HOST \<equiv> ''host''"

text \<open>Modelled from the spec: \<^verbatim>\<open>CONF_PORT\<close> of \<^verbatim>\<open>homeassistant.const\<close>, the key \<open>port\<close>.\<close>

abbreviation CONF_PORT :: string where "CONF_PORT \<equiv> ''port''"

text \<open>Modelled from the spec: \<^verbatim>\<open>CONF_TYPE\<close> of \<^verbatim>\<open>homeassistant.const\<close>, the key \<open>type\<close>.\<close>

abbreviation CONF_TYPE :: string where "CONF_TYPE \<equiv> ''type''"

text \<open>The constants of \<^verbatim>\<open>const.py\<close>.\<close>

abbreviation CONF_MOUNT_DIR :: string where "CONF_MOUNT_DIR \<equiv> ''mount_dir''"
abbreviation CONF_TYPE_OWSERVER :: string where "CONF_TYPE_OWSERVER \<equiv> ''OWServer''"
abbreviation CONF_TYPE_SYSBUS :: string where "CONF_TYPE_SYSBUS \<equiv> ''SysBus''"
abbreviation DEFAULT_OWSERVER_HOST :: string where "DEFAULT_OWSERVER_HOST \<equiv> ''localhost''"
abbreviation DEFAULT_OWSERVER_PORT :: int where "DEFAULT_OWSERVER_PORT \<equiv> 4304"
abbreviation DEFAULT_SYSBUS_MOUNT_DIR :: string where
  "DEFAULT_SYSBUS_MOUNT_DIR \<equiv> ''/sys/bus/w1/devices/''"
abbreviation DOMAIN :: string where "DOMAIN \<equiv> ''onewire''"

text \<open>
  A persisted configuration entry: its id, its configuration record, its options and the
  unique id of the session that created it.
\<close>

record config_entry =
  entry_id :: string
  entry_data :: conf
  entry_options :: "string \<Rightarrow> pyval option"
  entry_unique_id :: "string option"

text \<open>
  A device as the hub reports it. The classes are declared in \<^verbatim>\<open>model.py\<close>; the wizard
  tests for \<^verbatim>\<open>OWServerDeviceDescription\<close> and reads its \<^verbatim>\<open>id\<close> and \<^verbatim>\<open>type\<close>.
\<close>

datatype device_description =
    OWServerDeviceDescription string string
  | OWDirectDeviceDescription string

record onewirehub =
  devices :: "device_description list"

text \<open>
  A device of the device registry; only \<^verbatim>\<open>name_by_user\<close> is read by the wizard. The
  registry is looked up by device id (\<^verbatim>\<open>async_get_device({(DOMAIN, id)})\<close>).
\<close>

record device_entry =
  name_by_user :: "string option"

type_synonym device_registry = "string \<Rightarrow> device_entry option"

text \<open>
  What the wizards see of \<^verbatim>\<open>hass\<close>: the hubs of \<^verbatim>\<open>hass.data[DOMAIN][entry_id]\<close>, the device
  registry, the persisted entries, and the two operations of a hub, each of which
  returns (\<open>None\<close>) or raises an exception.
\<close>

record hass =
  hass_data :: "string \<Rightarrow> (string \<Rightarrow> onewirehub option) option"
  dr_async_get :: device_registry
  config_entries :: "config_entry list"
  hub_connect :: "conf_value \<Rightarrow> conf_value \<Rightarrow> error option"
  hub_check_mount_dir :: "conf_value \<Rightarrow> error option"

section \<open>The options wizard: state and name helpers\<close>

text \<open>
  The fields of \<^verbatim>\<open>OnewireOptionsFlowHandler\<close>. \<^verbatim>\<open>controller\<close> is declared without a value
  and bound by the init step.
\<close>

record options_flow =
  config_entry :: config_entry
  options :: dict
  controller :: "onewirehub option"
  device_list_ds18b20 :: "string list"
  current_device :: string
  devices_to_configure_ds18b20 :: "string list"
  device_registry :: "device_registry option"

text \<open>\<^verbatim>\<open>__init__\<close>: the options are a copy of the persisted entry's options.\<close>

definition OnewireOptionsFlowHandler :: "config_entry \<Rightarrow> options_flow" where
  "OnewireOptionsFlowHandler entry =
     \<lparr> config_entry = entry,
       options = entry_options entry,
       controller = None,
       device_list_ds18b20 = [],
       current_device = [],
       devices_to_configure_ds18b20 = [],
       device_registry = None \<rparr>"

text \<open>
  \<^verbatim>\<open>_get_device_long_name_from_id\<close>. A registry that is set is truthy. The local
  \<^verbatim>\<open>device\<close> is only annotated, and assigned in the branch where the registry is there;
  in the other branch the function logs and goes on to read \<^verbatim>\<open>device\<close>, which is unbound.
  A name is used when it is there and not the empty string.
\<close>

definition get_device_long_name_from_id :: "options_flow \<Rightarrow> string \<Rightarrow> error + string" where
  "get_device_long_name_from_id self current =
     (case device_registry self of
        None \<Rightarrow> Inl UnboundLocalError
      | Some registry \<Rightarrow>
          (case registry current of
             None \<Rightarrow> Inr current
           | Some device \<Rightarrow>
               (case name_by_user device of
                  None \<Rightarrow> Inr current
                | Some name \<Rightarrow>
                    if name \<noteq> [] then Inr (name @ '' ('' @ current @ '')'')
                    else Inr current)))"

text \<open>\<^verbatim>\<open>_get_device_id_from_long_name\<close>.\<close>

definition get_device_id_from_long_name :: "string \<Rightarrow> error + string" where
  "get_device_id_from_long_name device_name =
     (if CHR ''('' \<in> set device_name
      then (case py_index (py_split CHR ''('' device_name) 1 of
              Inl e \<Rightarrow> Inl e
            | Inr piece \<Rightarrow> Inr (py_replace CHR '')'' [] piece))
      else Inr device_name)"

section \<open>Forms and results of a step\<close>

text \<open>
  What a step hands back to the host: \<^verbatim>\<open>async_show_form(step_id, data_schema, errors,
  description_placeholders)\<close> or \<^verbatim>\<open>async_create_entry(title, data)\<close>. A schema is the list
  of its keys, each with its marker, its default (if any) and its validator.
\<close>

datatype marker = Required | Optional

datatype validator =
    IsStr
  | IsInt
  | IsBool
  | In "string list"
  | MultiSelect "string \<Rightarrow> bool option"

datatype 'v schema_key = SchemaKey marker string "'v option" validator

datatype 'v flow_result =
    ShowForm string "'v schema_key list" "(string \<Rightarrow> string option) option"
      "(string \<Rightarrow> string option) option"
  | CreateEntry 'v "string \<Rightarrow> 'v option"

fun schema_default :: "'v schema_key list \<Rightarrow> string \<Rightarrow> 'v option" where
  "schema_default [] k = None"
| "schema_default (SchemaKey m k' d v # ks) k = (if k' = k then d else schema_default ks k)"

section \<open>The options wizard: helpers on the options\<close>

text \<open>A loop that appends \<open>f x\<close> for every \<open>x\<close> stops at the first exception.\<close>

fun map_result :: "('a \<Rightarrow> error + 'b) \<Rightarrow> 'a list \<Rightarrow> error + 'b list" where
  "map_result f [] = Inr []"
| "map_result f (x # xs) =
     (case f x of
        Inl e \<Rightarrow> Inl e
      | Inr y \<Rightarrow> (case map_result f xs of Inl e \<Rightarrow> Inl e | Inr ys \<Rightarrow> Inr (y # ys)))"

text \<open>A list comprehension with a condition that can raise.\<close>

fun filter_result :: "('a \<Rightarrow> error + bool) \<Rightarrow> 'a list \<Rightarrow> error + 'a list" where
  "filter_result p [] = Inr []"
| "filter_result p (x # xs) =
     (case p x of
        Inl e \<Rightarrow> Inl e
      | Inr b \<Rightarrow>
          (case filter_result p xs of
             Inl e \<Rightarrow> Inl e
           | Inr ys \<Rightarrow> Inr (if b then x # ys else ys)))"

text \<open>\<^verbatim>\<open>key in v\<close> for a string \<open>key\<close>.\<close>

fun py_contains :: "pyval \<Rightarrow> string \<Rightarrow> error + bool" where
  "py_contains (VList l) key = Inr (key \<in> set l)"
| "py_contains (VDict d) key = Inr (d key \<noteq> None)"
| "py_contains (VStr t) key = Inr (is_substring key t)"
| "py_contains v key = Inl TypeError"

text \<open>\<^verbatim>\<open>v[key]\<close> and \<^verbatim>\<open>v[key] = x\<close> for a string \<open>key\<close>: only a dictionary takes one.\<close>

fun py_getitem :: "pyval \<Rightarrow> string \<Rightarrow> error + pyval" where
  "py_getitem (VDict d) key = (case d key of None \<Rightarrow> Inl (KeyError key) | Some x \<Rightarrow> Inr x)"
| "py_getitem v key = Inl TypeError"

fun py_setitem :: "pyval \<Rightarrow> string \<Rightarrow> pyval \<Rightarrow> error + pyval" where
  "py_setitem (VDict d) key x = Inr (VDict (d(key \<mapsto> x)))"
| "py_setitem v key x = Inl TypeError"

text \<open>\<^verbatim>\<open>_get_device_list_with_names\<close>.\<close>

definition get_device_list_with_names :: "options_flow \<Rightarrow> error + string list" where
  "get_device_list_with_names self =
     map_result (get_device_long_name_from_id self) (device_list_ds18b20 self)"

text \<open>\<^verbatim>\<open>_get_current_ds18b20_config_selection\<close>.\<close>

definition get_current_ds18b20_config_selection :: "options_flow \<Rightarrow> error + string list" where
  "get_current_ds18b20_config_selection self =
     (case options self ''ds18b20_device_selection'' of
        None \<Rightarrow> Inr []
      | Some VNone \<Rightarrow> Inr []
      | Some selected_entries \<Rightarrow>
          (case get_device_list_with_names self of
             Inl e \<Rightarrow> Inl e
           | Inr names \<Rightarrow>
               filter_result
                 (\<lambda>device. case get_device_id_from_long_name device of
                              Inl e \<Rightarrow> Inl e
                            | Inr i \<Rightarrow> py_contains selected_entries i)
                 names))"

text \<open>\<^verbatim>\<open>_get_default_ds18b20_config_option\<close>.\<close>

definition get_default_ds18b20_config_option :: "options_flow \<Rightarrow> string \<Rightarrow> error + pyval" where
  "get_default_ds18b20_config_option self device =
     (case options self ''sensor_precision'' of
        None \<Rightarrow> Inr (VStr ''Default'')
      | Some sensor_precision_entry \<Rightarrow>
          if truthy sensor_precision_entry
          then (case py_contains sensor_precision_entry device of
                  Inl e \<Rightarrow> Inl e
                | Inr found \<Rightarrow>
                    if found then py_getitem sensor_precision_entry device
                    else Inr (VStr ''Default''))
          else Inr (VStr ''Default''))"

text \<open>
  \<^verbatim>\<open>_update_ds18b20_config_option\<close>. The right-hand side \<^verbatim>\<open>user_input["sensor_precision"]\<close> is
  evaluated before the store in either branch. The result is the exception raised, if
  any, and the wizard afterwards.
\<close>

definition update_ds18b20_config_option ::
  "options_flow \<Rightarrow> string \<Rightarrow> dict \<Rightarrow> error option \<times> options_flow" where
  "update_ds18b20_config_option self device user_input =
     (case user_input ''sensor_precision'' of
        None \<Rightarrow> (Some (KeyError ''sensor_precision''), self)
      | Some precision \<Rightarrow>
          (case (case options self ''sensor_precision'' of
                   None \<Rightarrow> Inr (VDict [device \<mapsto> precision])
                 | Some sensor_precision_entry \<Rightarrow>
                     if truthy sensor_precision_entry
                     then py_setitem sensor_precision_entry device precision
                     else Inr (VDict [device \<mapsto> precision])) of
             Inl e \<Rightarrow> (Some e, self)
           | Inr entry \<Rightarrow>
               (None, self\<lparr>options := options self ++ [''sensor_precision'' \<mapsto> entry]\<rparr>)))"

text \<open>
  The loop of \<^verbatim>\<open>_update_options_dict\<close> over \<^verbatim>\<open>enumerate(name_list)\<close>, which stores the id
  of each label back at its index. A list is rewritten entry by entry. A string of
  one character or more is iterated but takes no item assignment; a dictionary that is
  not empty gains the key \<open>0\<close> in the first round and the iteration fails in the next;
  the other values are not iterable.
\<close>

fun translate_name_list :: "pyval \<Rightarrow> error + pyval" where
  "translate_name_list (VList l) =
     (case map_result get_device_id_from_long_name l of
        Inl e \<Rightarrow> Inl e
      | Inr ids \<Rightarrow> Inr (VList ids))"
| "translate_name_list (VStr s) = (if s = [] then Inr (VStr s) else Inl TypeError)"
| "translate_name_list (VDict d) = (if d = Map.empty then Inr (VDict d) else Inl RuntimeError)"
| "translate_name_list v = Inl TypeError"

text \<open>\<^verbatim>\<open>_update_options_dict\<close>: the submission, its labels translated, is merged in.\<close>

definition update_options_dict :: "options_flow \<Rightarrow> dict \<Rightarrow> error option \<times> options_flow" where
  "update_options_dict self user_input =
     (case user_input ''ds18b20_device_selection'' of
        None \<Rightarrow> (None, self\<lparr>options := options self ++ user_input\<rparr>)
      | Some name_list \<Rightarrow>
          (case translate_name_list name_list of
             Inl e \<Rightarrow> (Some e, self)
           | Inr ids \<Rightarrow>
               (None, self\<lparr>options :=
                  options self ++ user_input(''ds18b20_device_selection'' \<mapsto> ids)\<rparr>)))"

section \<open>The options wizard: steps\<close>

type_synonym options_outcome = "(error + pyval flow_result) \<times> options_flow"

text \<open>\<^verbatim>\<open>_update_options\<close>: the one place that persists the options.\<close>

definition update_options :: "options_flow \<Rightarrow> options_outcome" where
  "update_options self = (Inr (CreateEntry (VStr []) (options self)), self)"

text \<open>
  \<^verbatim>\<open>async_step_ds1820b_device_config\<close>. Without a submission it pops the last pending
  device (\<^verbatim>\<open>IndexError\<close> on an empty list) and renders its form; with one it stores the
  precision of the current device and either calls itself without a submission or
  commits.
\<close>

function async_step_ds1820b_device_config ::
  "options_flow \<Rightarrow> dict option \<Rightarrow> options_outcome" where
  "async_step_ds1820b_device_config self None =
     (if devices_to_configure_ds18b20 self = [] then (Inl IndexError, self)
      else
        let self1 = self\<lparr>current_device := last (devices_to_configure_ds18b20 self),
                         devices_to_configure_ds18b20 :=
                           butlast (devices_to_configure_ds18b20 self)\<rparr>
        in (case get_default_ds18b20_config_option self1 (current_device self1) of
              Inl e \<Rightarrow> (Inl e, self1)
            | Inr default_precision \<Rightarrow>
                (case get_device_long_name_from_id self1 (current_device self1) of
                   Inl e \<Rightarrow> (Inl e, self1)
                 | Inr long_name \<Rightarrow>
                     (Inr (ShowForm ''ds1820b_device_config''
                        [SchemaKey Required ''sensor_precision'' (Some default_precision)
                           (In [''Default'', ''9 Bits'', ''10 Bits'', ''11 Bits'', ''12 Bits''])]
                        None
                        (Some [''sens_id'' \<mapsto> long_name])), self1))))"
| "async_step_ds1820b_device_config self (Some user_input) =
     (case update_ds18b20_config_option self (current_device self) user_input of
        (Some e, self1) \<Rightarrow> (Inl e, self1)
      | (None, self1) \<Rightarrow>
          if length (devices_to_configure_ds18b20 self1) > 0
          then async_step_ds1820b_device_config self1 None
          else update_options self1)"
  by pat_completeness auto
termination
  by (relation "measure (\<lambda>(self, user_input). case user_input of None \<Rightarrow> 0 | Some u \<Rightarrow> 1)")
    auto

text \<open>
  \<^verbatim>\<open>async_step_device_selection\<close>. The copy of the selection is a list in every run of
  the form; a dictionary has \<^verbatim>\<open>copy\<close> too (an empty one is falsy, so the wizard commits;
  any other fails at \<^verbatim>\<open>pop()\<close>), the other values have no \<^verbatim>\<open>copy\<close>. In the form, the
  default of a key is written as its value and the \<^verbatim>\<open>description\<close> of the second key is
  left out.
\<close>

definition async_step_device_selection :: "options_flow \<Rightarrow> dict option \<Rightarrow> options_outcome" where
  "async_step_device_selection self user_input =
     (case user_input of
        Some submitted \<Rightarrow>
          (case update_options_dict self submitted of
             (Some e, self1) \<Rightarrow> (Inl e, self1)
           | (None, self1) \<Rightarrow>
               (case options self1 ''clear_device_config'' of
                  None \<Rightarrow> (Inl (KeyError ''clear_device_config''), self1)
                | Some clear \<Rightarrow>
                    if truthy clear then update_options (self1\<lparr>options := Map.empty\<rparr>)
                    else
                      (case options self1 ''ds18b20_device_selection'' of
                         None \<Rightarrow> (Inl (KeyError ''ds18b20_device_selection''), self1)
                       | Some (VList l) \<Rightarrow>
                           let self2 = self1\<lparr>devices_to_configure_ds18b20 := l\<rparr>
                           in if l \<noteq> [] then async_step_ds1820b_device_config self2 None
                              else update_options self2
                       | Some (VDict d) \<Rightarrow>
                           if d \<noteq> Map.empty then (Inl TypeError, self1)
                           else update_options (self1\<lparr>devices_to_configure_ds18b20 := []\<rparr>)
                       | Some other \<Rightarrow> (Inl AttributeError, self1))))
      | None \<Rightarrow>
          (case get_current_ds18b20_config_selection self of
             Inl e \<Rightarrow> (Inl e, self)
           | Inr selection \<Rightarrow>
               (case get_device_list_with_names self of
                  Inl e \<Rightarrow> (Inl e, self)
                | Inr names \<Rightarrow>
                    (Inr (ShowForm ''device_selection''
                       [SchemaKey Optional ''clear_device_config'' (Some (VBool False)) IsBool,
                        SchemaKey Optional ''ds18b20_device_selection'' (Some (VList selection))
                          (MultiSelect (map_of (map (\<lambda>device. (device, False)) names)))]
                       None None), self))))"

text \<open>
  \<^verbatim>\<open>async_step_init\<close>. The two look-ups in \<^verbatim>\<open>hass.data\<close> raise \<^verbatim>\<open>KeyError\<close> when no hub is
  registered for the entry. The loop over the registry only logs.
\<close>

definition async_step_init :: "hass \<Rightarrow> options_flow \<Rightarrow> dict option \<Rightarrow> options_outcome" where
  "async_step_init h self user_input =
     (case hass_data h DOMAIN of
        None \<Rightarrow> (Inl (KeyError DOMAIN), self)
      | Some hubs \<Rightarrow>
          (case hubs (entry_id (config_entry self)) of
             None \<Rightarrow> (Inl (KeyError (entry_id (config_entry self))), self)
           | Some hub \<Rightarrow>
               let self1 = self\<lparr>controller := Some hub,
                                device_registry := Some (dr_async_get h)\<rparr>;
                   self2 =
                     (if devices hub \<noteq> []
                      then self1\<lparr>device_list_ds18b20 :=
                             concat (map (\<lambda>x. case x of
                                            OWServerDeviceDescription i t \<Rightarrow>
                                              if t = ''DS18B20'' then [i] else []
                                          | OWDirectDeviceDescription i \<Rightarrow> [])
                                       (devices hub))\<rparr>
                      else self1)
               in (case user_input of
                     Some submitted \<Rightarrow> (Inr (CreateEntry (VStr []) submitted), self2)
                   | None \<Rightarrow> async_step_device_selection self2 None)))"

text \<open>
  Modelled from the spec: the host that drives a wizard (the flow manager, not among the
  source files). A step id that names no step of the wizard is the host's error.
\<close>

datatype step_error = UnknownStep string

text \<open>
  Modelled from the spec: the host's dispatch. Each step is invoked by the host, by the
  step id of the form rendered before.
\<close>

definition options_step ::
  "hass \<Rightarrow> string \<Rightarrow> options_flow \<Rightarrow> dict option \<Rightarrow> step_error + options_outcome" where
  "options_step h step self user_input =
     (if step = ''init'' then Inr (async_step_init h self user_input)
      else if step = ''device_selection'' then Inr (async_step_device_selection self user_input)
      else if step = ''ds1820b_device_config''
        then Inr (async_step_ds1820b_device_config self user_input)
      else Inl (UnknownStep step))"

text \<open>
  Modelled from the spec: the host's loop. It calls the step a form names with the next
  submission, until a step finishes the wizard or raises, or the submissions end.
  \<open>options_steps\<close> returns what every call returned.
\<close>

fun options_steps ::
  "hass \<Rightarrow> string \<Rightarrow> options_flow \<Rightarrow> dict list \<Rightarrow> options_outcome list" where
  "options_steps h step self [] = []"
| "options_steps h step self (user_input # rest) =
     (case options_step h step self (Some user_input) of
        Inl e \<Rightarrow> []
      | Inr (Inr (ShowForm next_step schema errors placeholders), self1) \<Rightarrow>
          (Inr (ShowForm next_step schema errors placeholders), self1)
            # options_steps h next_step self1 rest
      | Inr (result, self1) \<Rightarrow> [(result, self1)])"

text \<open>What a run shows: the devices whose configuration form it rendered, in order.\<close>

fun is_form :: "string \<Rightarrow> options_outcome \<Rightarrow> bool" where
  "is_form step (Inr (ShowForm step' schema errors placeholders), self) = (step' = step)"
| "is_form step other = False"

definition visited_devices :: "options_outcome list \<Rightarrow> string list" where
  "visited_devices run =
     map (\<lambda>(result, self). current_device self) (filter (is_form ''ds1820b_device_config'') run)"

text \<open>The entries of \<^verbatim>\<open>sensor_precision\<close> in a record: none when the key is not there.\<close>

definition sensor_precision :: "dict \<Rightarrow> (string \<Rightarrow> pyval option)" where
  "sensor_precision opts =
     (case opts ''sensor_precision'' of Some (VDict d) \<Rightarrow> d | _ \<Rightarrow> Map.empty)"

section \<open>The setup wizard\<close>

text \<open>
  The fields of \<^verbatim>\<open>OneWireFlowHandler\<close>: the pending configuration, and the unique id the
  host keeps for the session.
\<close>

record setup_flow =
  onewire_config :: conf
  unique_id :: "string option"

definition OneWireFlowHandler :: setup_flow where
  "OneWireFlowHandler = \<lparr> onewire_config = Map.empty, unique_id = None \<rparr>"

text \<open>The calls a step made to the hub, in order.\<close>

datatype hub_call = Connect conf_value conf_value | CheckMountDir conf_value

type_synonym setup_outcome = "(error + conf_value flow_result) \<times> setup_flow \<times> hub_call list"

definition DATA_SCHEMA_USER :: "conf_value schema_key list" where
  "DATA_SCHEMA_USER =
     [SchemaKey Required CONF_TYPE None (In [CONF_TYPE_OWSERVER, CONF_TYPE_SYSBUS])]"

definition DATA_SCHEMA_OWSERVER :: "conf_value schema_key list" where
  "DATA_SCHEMA_OWSERVER =
     [SchemaKey Required CONF_HOST (Some (CStr DEFAULT_OWSERVER_HOST)) IsStr,
      SchemaKey Required CONF_PORT (Some (CInt DEFAULT_OWSERVER_PORT)) IsInt]"

definition DATA_SCHEMA_MOUNTDIR :: "conf_value schema_key list" where
  "DATA_SCHEMA_MOUNTDIR =
     [SchemaKey Required CONF_MOUNT_DIR (Some (CStr DEFAULT_SYSBUS_MOUNT_DIR)) IsStr]"

text \<open>
  \<^verbatim>\<open>validate_input_owserver\<close> and \<^verbatim>\<open>validate_input_mount_dir\<close>: the title on success, the
  hub's exception otherwise, and the call made.
\<close>

definition validate_input_owserver :: "hass \<Rightarrow> conf \<Rightarrow> (error + conf_value) \<times> hub_call list" where
  "validate_input_owserver h data =
     (case data CONF_HOST of
        None \<Rightarrow> (Inl (KeyError CONF_HOST), [])
      | Some host \<Rightarrow>
          (case data CONF_PORT of
             None \<Rightarrow> (Inl (KeyError CONF_PORT), [])
           | Some port \<Rightarrow>
               (case hub_connect h host port of
                  Some e \<Rightarrow> (Inl e, [Connect host port])
                | None \<Rightarrow> (Inr host, [Connect host port]))))"

definition validate_input_mount_dir :: "hass \<Rightarrow> conf \<Rightarrow> (error + conf_value) \<times> hub_call list" where
  "validate_input_mount_dir h data =
     (case data CONF_MOUNT_DIR of
        None \<Rightarrow> (Inl (KeyError CONF_MOUNT_DIR), [])
      | Some mount_dir \<Rightarrow>
          (case hub_check_mount_dir h mount_dir of
             Some e \<Rightarrow> (Inl e, [CheckMountDir mount_dir])
           | None \<Rightarrow> (Inr mount_dir, [CheckMountDir mount_dir])))"

text \<open>
  Modelled from the spec: \<^verbatim>\<open>_async_abort_entries_match\<close> of the host's \<^verbatim>\<open>ConfigFlow\<close>, which
  is not among the source files. The spec: the step is rejected if a persisted
  configuration with identical fields exists, by exact equality of each field.
\<close>

definition async_abort_entries_match :: "hass \<Rightarrow> (string \<times> conf_value) list \<Rightarrow> error option" where
  "async_abort_entries_match h match_dict =
     (if list_ex (\<lambda>entry. list_all (\<lambda>(k, v). entry_data entry k = Some v) match_dict)
           (config_entries h)
      then Some (AbortFlow ''already_configured'')
      else None)"

text \<open>
  Modelled from the spec: \<^verbatim>\<open>async_set_unique_id\<close> of the host's \<^verbatim>\<open>ConfigFlow\<close>, which is
  not among the source files. The spec: the step computes an identity for the session
  and aborts with a duplicate error if that identity was already used by a prior
  completed session. Here the identity is recorded.
\<close>

definition async_set_unique_id :: "setup_flow \<Rightarrow> string \<Rightarrow> setup_flow" where
  "async_set_unique_id self uid = self\<lparr>unique_id := Some uid\<rparr>"

text \<open>
  Modelled from the spec: \<^verbatim>\<open>_abort_if_unique_id_configured\<close> of the host's \<^verbatim>\<open>ConfigFlow\<close>: a
  persisted entry with the unique id of the session aborts the step.
\<close>

definition abort_if_unique_id_configured :: "hass \<Rightarrow> setup_flow \<Rightarrow> error option" where
  "abort_if_unique_id_configured h self =
     (case unique_id self of
        None \<Rightarrow> None
      | Some uid \<Rightarrow>
          if list_ex (\<lambda>entry. entry_unique_id entry = Some uid) (config_entries h)
          then Some (AbortFlow ''already_configured'')
          else None)"

text \<open>\<^verbatim>\<open>async_step_owserver\<close>. \<^verbatim>\<open>if user_input:\<close> is false for no submission and an empty one.\<close>

definition async_step_owserver :: "hass \<Rightarrow> setup_flow \<Rightarrow> conf option \<Rightarrow> setup_outcome" where
  "async_step_owserver h self user_input =
     (case (case user_input of
              None \<Rightarrow> None
            | Some submitted \<Rightarrow> if submitted \<noteq> Map.empty then Some submitted else None) of
        Some submitted \<Rightarrow>
          (case submitted CONF_HOST of
             None \<Rightarrow> (Inl (KeyError CONF_HOST), self, [])
           | Some host \<Rightarrow>
               (case submitted CONF_PORT of
                  None \<Rightarrow> (Inl (KeyError CONF_PORT), self, [])
                | Some port \<Rightarrow>
                    (case async_abort_entries_match h
                            [(CONF_TYPE, CStr CONF_TYPE_OWSERVER), (CONF_HOST, host),
                             (CONF_PORT, port)] of
                       Some e \<Rightarrow> (Inl e, self, [])
                     | None \<Rightarrow>
                         let self1 = self\<lparr>onewire_config := onewire_config self ++ submitted\<rparr>
                         in (case validate_input_owserver h submitted of
                               (Inl e, calls) \<Rightarrow>
                                 if e = CannotConnect
                                 then (Inr (ShowForm ''owserver'' DATA_SCHEMA_OWSERVER
                                              (Some [''base'' \<mapsto> ''cannot_connect'']) None),
                                       self1, calls)
                                 else (Inl e, self1, calls)
                             | (Inr title, calls) \<Rightarrow>
                                 (Inr (CreateEntry title (onewire_config self1)), self1, calls)))))
      | None \<Rightarrow>
          (Inr (ShowForm ''owserver'' DATA_SCHEMA_OWSERVER (Some Map.empty) None), self, []))"

text \<open>\<^verbatim>\<open>async_step_mount_dir\<close>.\<close>

definition async_step_mount_dir :: "hass \<Rightarrow> setup_flow \<Rightarrow> conf option \<Rightarrow> setup_outcome" where
  "async_step_mount_dir h self user_input =
     (case (case user_input of
              None \<Rightarrow> None
            | Some submitted \<Rightarrow> if submitted \<noteq> Map.empty then Some submitted else None) of
        Some submitted \<Rightarrow>
          (case submitted CONF_MOUNT_DIR of
             None \<Rightarrow> (Inl (KeyError CONF_MOUNT_DIR), self, [])
           | Some mount_dir \<Rightarrow>
               let self1 = async_set_unique_id self (CONF_TYPE_SYSBUS @ '':'' @ py_str mount_dir)
               in (case abort_if_unique_id_configured h self1 of
                     Some e \<Rightarrow> (Inl e, self1, [])
                   | None \<Rightarrow>
                       let self2 = self1\<lparr>onewire_config := onewire_config self1 ++ submitted\<rparr>
                       in (case validate_input_mount_dir h submitted of
                             (Inl e, calls) \<Rightarrow>
                               if e = InvalidPath
                               then (Inr (ShowForm ''mount_dir'' DATA_SCHEMA_MOUNTDIR
                                            (Some [''base'' \<mapsto> ''invalid_path'']) None),
                                     self2, calls)
                               else (Inl e, self2, calls)
                           | (Inr title, calls) \<Rightarrow>
                               (Inr (CreateEntry title (onewire_config self2)), self2, calls))))
      | None \<Rightarrow>
          (Inr (ShowForm ''mount_dir'' DATA_SCHEMA_MOUNTDIR (Some Map.empty) None), self, []))"

text \<open>\<^verbatim>\<open>async_step_user\<close>.\<close>

definition async_step_user :: "hass \<Rightarrow> setup_flow \<Rightarrow> conf option \<Rightarrow> setup_outcome" where
  "async_step_user h self user_input =
     (case user_input of
        Some submitted \<Rightarrow>
          let self1 = self\<lparr>onewire_config := onewire_config self ++ submitted\<rparr>
          in (case submitted CONF_TYPE of
                None \<Rightarrow> (Inl (KeyError CONF_TYPE), self1, [])
              | Some t \<Rightarrow>
                  if CStr CONF_TYPE_OWSERVER = t then async_step_owserver h self1 None
                  else if CStr CONF_TYPE_SYSBUS = t then async_step_mount_dir h self1 None
                  else (Inr (ShowForm ''user'' DATA_SCHEMA_USER (Some Map.empty) None), self1, []))
      | None \<Rightarrow> (Inr (ShowForm ''user'' DATA_SCHEMA_USER (Some Map.empty) None), self, []))"

text \<open>
  Modelled from the spec: what the host does with a finished session. The record is
  persisted as a new entry, with the session's unique id; any other result persists
  nothing.
\<close>

definition persist :: "hass \<Rightarrow> string \<Rightarrow> setup_outcome \<Rightarrow> hass" where
  "persist h new_id outcome =
     (case outcome of
        (Inr (CreateEntry title data), self, calls) \<Rightarrow>
          h\<lparr>config_entries := config_entries h @
               [\<lparr> entry_id = new_id, entry_data = data, entry_options = Map.empty,
                  entry_unique_id = unique_id self \<rparr>]\<rparr>
      | _ \<Rightarrow> h)"

section \<open>Strings: splitting and replacing\<close>

lemma py_split_not_Nil: "py_split c s \<noteq> []"
  by (induction s) (auto split: list.splits)

lemma py_split_no_sep: "c \<notin> set s \<Longrightarrow> py_split c s = [s]"
  by (induction s) auto

lemma py_split_first_sep:
  "c \<notin> set pre \<Longrightarrow> py_split c (pre @ c # rest) = pre # py_split c rest"
  by (induction pre) auto

lemma hd_py_split: "hd (py_split c s) = takeWhile (\<lambda>x. x \<noteq> c) s"
  by (induction s) (auto simp: py_split_not_Nil split: list.splits)

lemma py_replace_delete: "py_replace c [] s = filter (\<lambda>x. x \<noteq> c) s"
  by (induction s) (auto simp: py_replace_def)

lemma get_device_id_after_first_paren:
  assumes "CHR ''('' \<notin> set pre"
  shows "get_device_id_from_long_name (pre @ CHR ''('' # rest) =
           Inr (filter (\<lambda>x. x \<noteq> CHR '')'') (takeWhile (\<lambda>x. x \<noteq> CHR ''('') rest))"
proof -
  obtain p ps where sp: "py_split CHR ''('' rest = p # ps"
    using py_split_not_Nil by (cases "py_split CHR ''('' rest") auto
  have "p = takeWhile (\<lambda>x. x \<noteq> CHR ''('') rest"
    using hd_py_split [of "CHR ''(''" rest] sp by simp
  then show ?thesis
    using assms sp
    by (simp add: get_device_id_from_long_name_def py_split_first_sep py_index_def
        py_replace_delete)
qed

lemma get_device_id_bare: "CHR ''('' \<notin> set l \<Longrightarrow> get_device_id_from_long_name l = Inr l"
  by (simp add: get_device_id_from_long_name_def)

lemma get_device_id_total: "\<exists>i. get_device_id_from_long_name l = Inr i"
proof (cases "CHR ''('' \<in> set l")
  case True
  then obtain pre rest where "l = pre @ CHR ''('' # rest" "CHR ''('' \<notin> set pre"
    by (auto dest: split_list_first)
  then show ?thesis
    using get_device_id_after_first_paren by blast
next
  case False
  then show ?thesis by (simp add: get_device_id_bare)
qed

section \<open>Labels and ids\<close>

text \<open>
  C4. With the registry at hand, the label built for a device id parses back to that id,
  whether the label is the bare id or \<open>name (id)\<close>, provided neither the id nor the
  display name of the device holds a parenthesis.
\<close>

theorem label_round_trip:
  assumes "device_registry self = Some registry"
    and "CHR ''('' \<notin> set device_id" and "CHR '')'' \<notin> set device_id"
    and "\<forall>device name. registry device_id = Some device \<and> name_by_user device = Some name
           \<longrightarrow> CHR ''('' \<notin> set name \<and> CHR '')'' \<notin> set name"
  shows "\<exists>label. get_device_long_name_from_id self device_id = Inr label
           \<and> get_device_id_from_long_name label = Inr device_id"
proof (cases "\<exists>device name. registry device_id = Some device \<and> name_by_user device = Some name
                \<and> name \<noteq> []")
  case True
  then obtain device name where d: "registry device_id = Some device"
    "name_by_user device = Some name" "name \<noteq> []"
    by blast
  then have np: "CHR ''('' \<notin> set name"
    using assms(4) by blast
  have long: "get_device_long_name_from_id self device_id = Inr (name @ '' ('' @ device_id @ '')'')"
    using assms(1) d by (simp add: get_device_long_name_from_id_def)
  have "get_device_id_from_long_name ((name @ '' '') @ CHR ''('' # (device_id @ '')''))
          = Inr (filter (\<lambda>x. x \<noteq> CHR '')'')
                  (takeWhile (\<lambda>x. x \<noteq> CHR ''('') (device_id @ '')'')))"
    using np by (intro get_device_id_after_first_paren) simp
  moreover have "takeWhile (\<lambda>x. x \<noteq> CHR ''('') (device_id @ '')'') = device_id @ '')''"
    using assms(2) by (intro takeWhile_eq_all_conv[THEN iffD2]) auto
  moreover have "filter (\<lambda>x. x \<noteq> CHR '')'') (device_id @ '')'') = device_id"
    using assms(3) by (auto simp: filter_id_conv)
  ultimately have "get_device_id_from_long_name (name @ '' ('' @ device_id @ '')'') = Inr device_id"
    by simp
  with long show ?thesis by simp
next
  case False
  then have "get_device_long_name_from_id self device_id = Inr device_id"
    using assms(1)
    by (auto simp: get_device_long_name_from_id_def split: option.splits)
  then show ?thesis
    using assms(2) by (simp add: get_device_id_bare)
qed


theorem label_round_trip_witness:
  "get_device_long_name_from_id
     ((OnewireOptionsFlowHandler
        \<lparr> entry_id = ''e1'', entry_data = Map.empty, entry_options = Map.empty,
          entry_unique_id = None \<rparr>)
      \<lparr>device_registry := Some [''28.AAA'' \<mapsto> \<lparr> name_by_user = Some ''Attic'' \<rparr>]\<rparr>)
     ''28.AAA'' = Inr ''Attic (28.AAA)''
   \<and> get_device_id_from_long_name ''Attic (28.AAA)'' = Inr ''28.AAA''"
  using label_round_trip [of
      "(OnewireOptionsFlowHandler
        \<lparr> entry_id = ''e1'', entry_data = Map.empty, entry_options = Map.empty,
          entry_unique_id = None \<rparr>)
      \<lparr>device_registry := Some [''28.AAA'' \<mapsto> \<lparr> name_by_user = Some ''Attic'' \<rparr>]\<rparr>"
      "[''28.AAA'' \<mapsto> \<lparr> name_by_user = Some ''Attic'' \<rparr>]" "''28.AAA''"]
  by (simp add: OnewireOptionsFlowHandler_def get_device_long_name_from_id_def)

text \<open>
  C5. The wizard as constructed has no device registry; asked for the long name of
  \<^verbatim>\<open>28.AAA\<close> it does not return the raw id: after logging it reads the unbound local
  \<^verbatim>\<open>device\<close> and raises \<^verbatim>\<open>UnboundLocalError\<close>.
\<close>

theorem long_name_without_registry:
  "get_device_long_name_from_id
     (OnewireOptionsFlowHandler
        \<lparr> entry_id = ''e1'', entry_data = Map.empty, entry_options = Map.empty,
          entry_unique_id = None \<rparr>)
     ''28.AAA'' = Inl UnboundLocalError"
  by (simp add: OnewireOptionsFlowHandler_def get_device_long_name_from_id_def)

text \<open>
  C7, as stated, fails: in the label \<^verbatim>\<open>X (a(b))\<close> the text strictly between the first
  \<^verbatim>\<open>(\<close> and the trailing \<^verbatim>\<open>)\<close> is \<^verbatim>\<open>a(b)\<close>, and the parsed id is \<^verbatim>\<open>a\<close>.
\<close>

theorem parse_counterexample:
  "''X (a(b))'' = ''X '' @ ''('' @ ''a(b)'' @ '')''
   \<and> CHR ''('' \<notin> set ''X ''
   \<and> get_device_id_from_long_name ''X (a(b))'' = Inr ''a''
   \<and> ''a'' \<noteq> ''a(b)''"
  by (simp add: get_device_id_from_long_name_def py_index_def py_replace_def)

text \<open>
  C7, amended. A label without \<^verbatim>\<open>(\<close> is its own id. Otherwise the id is the text after
  the first \<^verbatim>\<open>(\<close> up to the next \<^verbatim>\<open>(\<close> or the end of the label, with every \<^verbatim>\<open>)\<close> removed;
  so it is the text strictly between the first \<^verbatim>\<open>(\<close> and the trailing \<^verbatim>\<open>)\<close> whenever that
  text holds no parenthesis.
\<close>

theorem parse_rule:
  "(CHR ''('' \<notin> set label \<longrightarrow> get_device_id_from_long_name label = Inr label)
   \<and> (\<forall>pre rest. label = pre @ ''('' @ rest \<and> CHR ''('' \<notin> set pre \<longrightarrow>
         get_device_id_from_long_name label =
           Inr (filter (\<lambda>x. x \<noteq> CHR '')'') (takeWhile (\<lambda>x. x \<noteq> CHR ''('') rest)))
   \<and> (\<forall>pre mid. label = pre @ ''('' @ mid @ '')'' \<and> CHR ''('' \<notin> set pre
           \<and> CHR ''('' \<notin> set mid \<and> CHR '')'' \<notin> set mid \<longrightarrow>
         get_device_id_from_long_name label = Inr mid)"
proof (intro conjI allI impI)
  assume "CHR ''('' \<notin> set label"
  then show "get_device_id_from_long_name label = Inr label"
    by (rule get_device_id_bare)
next
  fix pre rest
  assume "label = pre @ ''('' @ rest \<and> CHR ''('' \<notin> set pre"
  then show "get_device_id_from_long_name label =
      Inr (filter (\<lambda>x. x \<noteq> CHR '')'') (takeWhile (\<lambda>x. x \<noteq> CHR ''('') rest))"
    using get_device_id_after_first_paren [of pre rest] by simp
next
  fix pre mid
  assume a: "label = pre @ ''('' @ mid @ '')'' \<and> CHR ''('' \<notin> set pre
           \<and> CHR ''('' \<notin> set mid \<and> CHR '')'' \<notin> set mid"
  then have "takeWhile (\<lambda>x. x \<noteq> CHR ''('') (mid @ '')'') = mid @ '')''"
    by (intro takeWhile_eq_all_conv[THEN iffD2]) auto
  moreover have "filter (\<lambda>x. x \<noteq> CHR '')'') (mid @ '')'') = mid"
    using a by (auto simp: filter_id_conv)
  ultimately show "get_device_id_from_long_name label = Inr mid"
    using a get_device_id_after_first_paren [of pre "mid @ '')''"] by simp
qed


theorem parse_rule_witness:
  "get_device_id_from_long_name ''Attic (28.AAA)'' = Inr ''28.AAA''
   \<and> get_device_id_from_long_name ''28.AAA'' = Inr ''28.AAA''
   \<and> get_device_id_from_long_name ''X (a(b))'' = Inr ''a''"
proof -
  have 1: "get_device_id_from_long_name ''Attic (28.AAA)'' = Inr ''28.AAA''"
    using parse_rule [of "''Attic (28.AAA)''", THEN conjunct2, THEN conjunct2,
        THEN spec, THEN spec, of "''Attic ''" "''28.AAA''"]
    by simp
  have 2: "get_device_id_from_long_name ''28.AAA'' = Inr ''28.AAA''"
    using parse_rule [of "''28.AAA''", THEN conjunct1] by simp
  have 3: "get_device_id_from_long_name ''X (a(b))'' = Inr ''a''"
    using parse_rule [of "''X (a(b))''", THEN conjunct2, THEN conjunct1,
        THEN spec, THEN spec, of "''X ''" "''a(b))''"]
    by simp
  show ?thesis using 1 2 3 by simp
qed

section \<open>The options wizard: one step\<close>

lemma map_result_get_device_id:
  "\<exists>ids. map_result get_device_id_from_long_name l = Inr ids \<and> length ids = length l"
proof (induction l)
  case Nil
  then show ?case by simp
next
  case (Cons a l)
  then show ?case
    using get_device_id_total [of a] by auto
qed

lemma update_options_dict_list:
  assumes "submitted ''ds18b20_device_selection'' = None
           \<or> (\<exists>l. submitted ''ds18b20_device_selection'' = Some (VList l))"
  shows "\<exists>merged. update_options_dict self submitted = (None, self\<lparr>options := merged\<rparr>)
           \<and> (\<forall>k. k \<noteq> ''ds18b20_device_selection'' \<longrightarrow> merged k = (options self ++ submitted) k)
           \<and> (submitted ''ds18b20_device_selection'' = None \<longrightarrow> merged = options self ++ submitted)"
  using assms
proof
  assume "submitted ''ds18b20_device_selection'' = None"
  then show ?thesis by (simp add: update_options_dict_def)
next
  assume "\<exists>l. submitted ''ds18b20_device_selection'' = Some (VList l)"
  then obtain l where l: "submitted ''ds18b20_device_selection'' = Some (VList l)" by blast
  obtain ids where "map_result get_device_id_from_long_name l = Inr ids"
    using map_result_get_device_id by blast
  then show ?thesis
    using l by (auto simp: update_options_dict_def map_add_def)
qed

lemma update_ds18b20_typed:
  assumes "options self ''sensor_precision'' = None
           \<or> (\<exists>d. options self ''sensor_precision'' = Some (VDict d))"
    and "user_input ''sensor_precision'' = Some precision"
  shows "update_ds18b20_config_option self device user_input =
           (None, self\<lparr>options := (options self)(''sensor_precision'' \<mapsto>
              VDict ((sensor_precision (options self))(device \<mapsto> precision)))\<rparr>)"
  using assms
  by (auto simp: update_ds18b20_config_option_def sensor_precision_def)

lemma get_default_typed:
  assumes "options self ''sensor_precision'' = None
           \<or> (\<exists>d. options self ''sensor_precision'' = Some (VDict d))"
  shows "\<exists>v. get_default_ds18b20_config_option self device = Inr v"
  using assms
  by (auto simp: get_default_ds18b20_config_option_def split: option.splits)

lemma get_long_name_with_registry:
  assumes "device_registry self = Some registry"
  shows "\<exists>name. get_device_long_name_from_id self device = Inr name"
  using assms
  by (auto simp: get_device_long_name_from_id_def split: option.splits)

lemma device_config_form:
  assumes "device_registry self = Some registry"
    and "options self ''sensor_precision'' = None
         \<or> (\<exists>d. options self ''sensor_precision'' = Some (VDict d))"
    and "devices_to_configure_ds18b20 self \<noteq> []"
  shows "\<exists>schema placeholders. async_step_ds1820b_device_config self None =
           (Inr (ShowForm ''ds1820b_device_config'' schema None placeholders),
            self\<lparr>current_device := last (devices_to_configure_ds18b20 self),
                  devices_to_configure_ds18b20 := butlast (devices_to_configure_ds18b20 self)\<rparr>)"
proof -
  let ?self1 = "self\<lparr>current_device := last (devices_to_configure_ds18b20 self),
                  devices_to_configure_ds18b20 := butlast (devices_to_configure_ds18b20 self)\<rparr>"
  obtain v where v: "get_default_ds18b20_config_option ?self1 (current_device ?self1) = Inr v"
    using get_default_typed [of ?self1] assms(2) by auto
  obtain name where n: "get_device_long_name_from_id ?self1 (current_device ?self1) = Inr name"
    using get_long_name_with_registry [of ?self1 registry] assms(1) by auto
  show ?thesis
    using assms(3) v n by (simp add: Let_def)
qed

text \<open>
  C1. A submission at the device selection whose \<^verbatim>\<open>clear_device_config\<close> is true commits
  the empty record at once, whatever else it holds (its selection, if any, being a list
  as the form produces it): the step returns \<^verbatim>\<open>async_create_entry\<close> with the empty
  dictionary, the run ends there, and no device configuration form is rendered.
\<close>

theorem clear_device_config_commits_empty:
  assumes "submitted ''clear_device_config'' = Some clear" and "truthy clear"
    and "submitted ''ds18b20_device_selection'' = None
         \<or> (\<exists>l. submitted ''ds18b20_device_selection'' = Some (VList l))"
  shows "async_step_device_selection self (Some submitted) =
           (Inr (CreateEntry (VStr []) Map.empty), self\<lparr>options := Map.empty\<rparr>)
         \<and> options_steps h ''device_selection'' self (submitted # later) =
             [(Inr (CreateEntry (VStr []) Map.empty), self\<lparr>options := Map.empty\<rparr>)]
         \<and> visited_devices (options_steps h ''device_selection'' self (submitted # later)) = []"
proof -
  obtain merged where m: "update_options_dict self submitted = (None, self\<lparr>options := merged\<rparr>)"
    "\<forall>k. k \<noteq> ''ds18b20_device_selection'' \<longrightarrow> merged k = (options self ++ submitted) k"
    using update_options_dict_list [of submitted self] assms(3) by blast
  have "merged ''clear_device_config'' = Some clear"
    using m(2) assms(1) by simp
  then have step: "async_step_device_selection self (Some submitted) =
           (Inr (CreateEntry (VStr []) Map.empty), self\<lparr>options := Map.empty\<rparr>)"
    using m(1) assms(2) by (simp add: async_step_device_selection_def update_options_def)
  then have run: "options_steps h ''device_selection'' self (submitted # later) =
             [(Inr (CreateEntry (VStr []) Map.empty), self\<lparr>options := Map.empty\<rparr>)]"
    by (simp add: options_step_def)
  show ?thesis
    using step run by (simp add: visited_devices_def)
qed

theorem clear_device_config_commits_empty_witness:
  "async_step_device_selection
     (OnewireOptionsFlowHandler
        \<lparr> entry_id = ''e1'', entry_data = Map.empty,
          entry_options = [''sensor_precision'' \<mapsto> VDict [''28.AAA'' \<mapsto> VStr ''9 Bits'']],
          entry_unique_id = None \<rparr>)
     (Some [''clear_device_config'' \<mapsto> VBool True,
            ''ds18b20_device_selection'' \<mapsto> VList [''Attic (28.AAA)'']])
   = (Inr (CreateEntry (VStr []) Map.empty),
      (OnewireOptionsFlowHandler
        \<lparr> entry_id = ''e1'', entry_data = Map.empty,
          entry_options = [''sensor_precision'' \<mapsto> VDict [''28.AAA'' \<mapsto> VStr ''9 Bits'']],
          entry_unique_id = None \<rparr>)\<lparr>options := Map.empty\<rparr>)"
  using clear_device_config_commits_empty [of
      "[''clear_device_config'' \<mapsto> VBool True,
        ''ds18b20_device_selection'' \<mapsto> VList [''Attic (28.AAA)'']]"
      "VBool True"
      "OnewireOptionsFlowHandler
        \<lparr> entry_id = ''e1'', entry_data = Map.empty,
          entry_options = [''sensor_precision'' \<mapsto> VDict [''28.AAA'' \<mapsto> VStr ''9 Bits'']],
          entry_unique_id = None \<rparr>", THEN conjunct1]
  by simp

text \<open>
  C10. The submit path of the device selection is partial. When neither the submission
  nor the loaded options hold \<^verbatim>\<open>clear_device_config\<close>, the step raises \<^verbatim>\<open>KeyError\<close> for it;
  when the merged \<^verbatim>\<open>clear_device_config\<close> is false and neither holds
  \<^verbatim>\<open>ds18b20_device_selection\<close>, it raises \<^verbatim>\<open>KeyError\<close> for that key. Neither a form nor an
  entry is returned.
\<close>

theorem device_selection_key_errors:
  "(submitted ''clear_device_config'' = None \<and> options self ''clear_device_config'' = None
      \<and> (submitted ''ds18b20_device_selection'' = None
          \<or> (\<exists>l. submitted ''ds18b20_device_selection'' = Some (VList l)))
     \<longrightarrow> fst (async_step_device_selection self (Some submitted))
           = Inl (KeyError ''clear_device_config''))
   \<and> ((options self ++ submitted) ''clear_device_config'' = Some clear \<and> \<not> truthy clear
      \<and> submitted ''ds18b20_device_selection'' = None
      \<and> options self ''ds18b20_device_selection'' = None
     \<longrightarrow> fst (async_step_device_selection self (Some submitted))
           = Inl (KeyError ''ds18b20_device_selection''))"
proof (intro conjI impI)
  assume a: "submitted ''clear_device_config'' = None \<and> options self ''clear_device_config'' = None
      \<and> (submitted ''ds18b20_device_selection'' = None
          \<or> (\<exists>l. submitted ''ds18b20_device_selection'' = Some (VList l)))"
  then obtain merged where m: "update_options_dict self submitted = (None, self\<lparr>options := merged\<rparr>)"
    "\<forall>k. k \<noteq> ''ds18b20_device_selection'' \<longrightarrow> merged k = (options self ++ submitted) k"
    using update_options_dict_list [of submitted self] by blast
  have "merged ''clear_device_config'' = None"
    using m(2) a by (simp add: map_add_def)
  then show "fst (async_step_device_selection self (Some submitted))
           = Inl (KeyError ''clear_device_config'')"
    using m(1) by (simp add: async_step_device_selection_def)
next
  assume a: "(options self ++ submitted) ''clear_device_config'' = Some clear \<and> \<not> truthy clear
      \<and> submitted ''ds18b20_device_selection'' = None
      \<and> options self ''ds18b20_device_selection'' = None"
  then have "update_options_dict self submitted = (None, self\<lparr>options := options self ++ submitted\<rparr>)"
    by (simp add: update_options_dict_def)
  moreover have "\<And>f g. (case (options self ++ submitted) ''ds18b20_device_selection'' of
                    None \<Rightarrow> f | Some v \<Rightarrow> g v) = (f :: options_outcome)"
    using a by (simp add: map_add_def)
  ultimately show "fst (async_step_device_selection self (Some submitted))
           = Inl (KeyError ''ds18b20_device_selection'')"
    using a by (simp add: async_step_device_selection_def)
qed

theorem device_selection_key_errors_witness:
  "fst (async_step_device_selection
          (OnewireOptionsFlowHandler
             \<lparr> entry_id = ''e1'', entry_data = Map.empty, entry_options = Map.empty,
               entry_unique_id = None \<rparr>)
          (Some [''ds18b20_device_selection'' \<mapsto> VList [''28.AAA'']]))
     = Inl (KeyError ''clear_device_config'')
   \<and> fst (async_step_device_selection
          (OnewireOptionsFlowHandler
             \<lparr> entry_id = ''e1'', entry_data = Map.empty, entry_options = Map.empty,
               entry_unique_id = None \<rparr>)
          (Some [''clear_device_config'' \<mapsto> VBool False]))
     = Inl (KeyError ''ds18b20_device_selection'')"
  using device_selection_key_errors [where
      submitted = "[''ds18b20_device_selection'' \<mapsto> VList [''28.AAA'']]" and
      self = "OnewireOptionsFlowHandler
             \<lparr> entry_id = ''e1'', entry_data = Map.empty, entry_options = Map.empty,
               entry_unique_id = None \<rparr>", THEN conjunct1]
    device_selection_key_errors [where
      self = "OnewireOptionsFlowHandler
             \<lparr> entry_id = ''e1'', entry_data = Map.empty, entry_options = Map.empty,
               entry_unique_id = None \<rparr>" and
      submitted = "[''clear_device_config'' \<mapsto> VBool False]" and clear = "VBool False",
      THEN conjunct2]
  by (simp add: OnewireOptionsFlowHandler_def)

text \<open>
  C9. With a submission, the init step persists exactly that submission: whatever it
  returns is \<^verbatim>\<open>async_create_entry\<close> of the submission, and it does return it when a hub is
  registered for the entry. The options loaded at construction play no part.
\<close>

theorem init_shortcut_persists_submission:
  "(\<forall>result. fst (async_step_init h self (Some submitted)) = Inr result \<longrightarrow>
       result = CreateEntry (VStr []) submitted)
   \<and> (\<forall>hubs hub. hass_data h DOMAIN = Some hubs \<and> hubs (entry_id (config_entry self)) = Some hub
        \<longrightarrow> fst (async_step_init h self (Some submitted)) = Inr (CreateEntry (VStr []) submitted))"
  by (auto simp: async_step_init_def Let_def split: option.splits)

theorem init_shortcut_persists_submission_witness:
  "fst (async_step_init
          \<lparr> hass_data = [DOMAIN \<mapsto> [''e1'' \<mapsto> \<lparr> devices = [] \<rparr>]],
            dr_async_get = Map.empty, config_entries = [],
            hub_connect = (\<lambda>host port. None), hub_check_mount_dir = (\<lambda>dir. None) \<rparr>
          (OnewireOptionsFlowHandler
             \<lparr> entry_id = ''e1'', entry_data = Map.empty,
               entry_options = [''ds18b20_device_selection'' \<mapsto> VList [''28.AAA'']],
               entry_unique_id = None \<rparr>)
          (Some [''clear_device_config'' \<mapsto> VBool False]))
   = Inr (CreateEntry (VStr []) [''clear_device_config'' \<mapsto> VBool False])"
  using init_shortcut_persists_submission [of
      "\<lparr> hass_data = [DOMAIN \<mapsto> [''e1'' \<mapsto> \<lparr> devices = [] \<rparr>]],
            dr_async_get = Map.empty, config_entries = [],
            hub_connect = (\<lambda>host port. None), hub_check_mount_dir = (\<lambda>dir. None) \<rparr>"
      "OnewireOptionsFlowHandler
             \<lparr> entry_id = ''e1'', entry_data = Map.empty,
               entry_options = [''ds18b20_device_selection'' \<mapsto> VList [''28.AAA'']],
               entry_unique_id = None \<rparr>"
      "[''clear_device_config'' \<mapsto> VBool False]", THEN conjunct2, THEN spec, THEN spec,
      of "[''e1'' \<mapsto> \<lparr> devices = [] \<rparr>]" "\<lparr> devices = [] \<rparr>"]
  by (simp add: OnewireOptionsFlowHandler_def)

section \<open>The options wizard: a run through the device configurations\<close>

lemma rev_last_butlast: "ds \<noteq> [] \<Longrightarrow> rev ds = last ds # rev (butlast ds)"
  by (induction ds rule: rev_induct) auto

lemma device_config_loop:
  assumes "device_registry self = Some registry"
    and "options self ''sensor_precision'' = None
         \<or> (\<exists>d. options self ''sensor_precision'' = Some (VDict d))"
    and "map (\<lambda>c. c ''sensor_precision'') cfgs = map Some chosen"
    and "length chosen = Suc (length (devices_to_configure_ds18b20 self))"
  shows "\<exists>run final.
           options_steps h ''ds1820b_device_config'' self cfgs =
             run @ [(Inr (CreateEntry (VStr []) (options final)), final)]
           \<and> list_all (is_form ''ds1820b_device_config'') run
           \<and> map (\<lambda>outcome. current_device (snd outcome)) run
               = rev (devices_to_configure_ds18b20 self)
           \<and> sensor_precision (options final) =
               fold (\<lambda>(device, precision) m. m(device \<mapsto> precision))
                 (zip (current_device self # rev (devices_to_configure_ds18b20 self)) chosen)
                 (sensor_precision (options self))"
  using assms
proof (induction cfgs arbitrary: self chosen)
  case Nil
  then show ?case by simp
next
  case (Cons c rest)
  from Cons.prems(3) obtain p ps where ch: "chosen = p # ps"
    "c ''sensor_precision'' = Some p" "map (\<lambda>c. c ''sensor_precision'') rest = map Some ps"
    by (cases chosen) auto
  let ?ds = "devices_to_configure_ds18b20 self"
  let ?self1 = "self\<lparr>options := (options self)(''sensor_precision'' \<mapsto>
              VDict ((sensor_precision (options self))(current_device self \<mapsto> p)))\<rparr>"
  have upd: "update_ds18b20_config_option self (current_device self) c = (None, ?self1)"
    using update_ds18b20_typed [where self = self and user_input = c and precision = p]
      Cons.prems(2) ch(2) by blast
  have sp1: "sensor_precision (options ?self1)
               = (sensor_precision (options self))(current_device self \<mapsto> p)"
    by (simp add: sensor_precision_def)
  show ?case
  proof (cases "?ds = []")
    case True
    then have "ps = []" using Cons.prems(4) ch(1) by simp
    then have "rest = []" using ch(3) by simp
    have "async_step_ds1820b_device_config self (Some c)
            = (Inr (CreateEntry (VStr []) (options ?self1)), ?self1)"
      using upd True by (simp add: update_options_def)
    then have 1: "options_steps h ''ds1820b_device_config'' self (c # rest)
                 = [] @ [(Inr (CreateEntry (VStr []) (options ?self1)), ?self1)]"
      using \<open>rest = []\<close> by (simp add: options_step_def)
    have 2: "list_all (is_form ''ds1820b_device_config'') []"
      by simp
    have 3: "map (\<lambda>outcome. current_device (snd outcome)) [] = rev ?ds"
      using True by simp
    have 4: "sensor_precision (options ?self1) =
               fold (\<lambda>(device, precision) m. m(device \<mapsto> precision))
                 (zip (current_device self # rev ?ds) chosen)
                 (sensor_precision (options self))"
      using sp1 True ch(1) \<open>ps = []\<close> by simp
    show ?thesis
      using 1 2 3 4 by blast
  next
    case False
    let ?self2 = "?self1\<lparr>current_device := last ?ds,
                           devices_to_configure_ds18b20 := butlast ?ds\<rparr>"
    obtain schema placeholders where form:
      "async_step_ds1820b_device_config ?self1 None =
         (Inr (ShowForm ''ds1820b_device_config'' schema None placeholders), ?self2)"
      using device_config_form [of ?self1 registry] Cons.prems(1) False by auto
    have step: "async_step_ds1820b_device_config self (Some c)
            = (Inr (ShowForm ''ds1820b_device_config'' schema None placeholders), ?self2)"
      using upd False form by simp
    have run_eq: "options_steps h ''ds1820b_device_config'' self (c # rest)
            = (Inr (ShowForm ''ds1820b_device_config'' schema None placeholders), ?self2)
                # options_steps h ''ds1820b_device_config'' ?self2 rest"
      using step by (simp add: options_step_def)
    have "\<exists>run final.
           options_steps h ''ds1820b_device_config'' ?self2 rest =
             run @ [(Inr (CreateEntry (VStr []) (options final)), final)]
           \<and> list_all (is_form ''ds1820b_device_config'') run
           \<and> map (\<lambda>outcome. current_device (snd outcome)) run
               = rev (devices_to_configure_ds18b20 ?self2)
           \<and> sensor_precision (options final) =
               fold (\<lambda>(device, precision) m. m(device \<mapsto> precision))
                 (zip (current_device ?self2 # rev (devices_to_configure_ds18b20 ?self2)) ps)
                 (sensor_precision (options ?self2))"
    proof (rule Cons.IH)
      show "device_registry ?self2 = Some registry"
        using Cons.prems(1) by simp
      show "options ?self2 ''sensor_precision'' = None
         \<or> (\<exists>d. options ?self2 ''sensor_precision'' = Some (VDict d))"
        by simp
      show "map (\<lambda>c. c ''sensor_precision'') rest = map Some ps"
        using ch(3) .
      show "length ps = Suc (length (devices_to_configure_ds18b20 ?self2))"
        using Cons.prems(4) ch(1) False by simp
    qed
    then obtain run final where ih:
      "options_steps h ''ds1820b_device_config'' ?self2 rest =
             run @ [(Inr (CreateEntry (VStr []) (options final)), final)]"
      "list_all (is_form ''ds1820b_device_config'') run"
      "map (\<lambda>outcome. current_device (snd outcome)) run = rev (butlast ?ds)"
      "sensor_precision (options final) =
               fold (\<lambda>(device, precision) m. m(device \<mapsto> precision))
                 (zip (last ?ds # rev (butlast ?ds)) ps)
                 (sensor_precision (options ?self1))"
      by auto
    let ?run = "(Inr (ShowForm ''ds1820b_device_config'' schema None placeholders), ?self2) # run"
    have 1: "options_steps h ''ds1820b_device_config'' self (c # rest) =
             ?run @ [(Inr (CreateEntry (VStr []) (options final)), final)]"
      using run_eq ih(1) by simp
    have 2: "list_all (is_form ''ds1820b_device_config'') ?run"
      using ih(2) by simp
    have 3: "map (\<lambda>outcome. current_device (snd outcome)) ?run = rev ?ds"
      using ih(3) by (simp add: rev_last_butlast [OF False])
    have 4: "sensor_precision (options final) =
               fold (\<lambda>(device, precision) m. m(device \<mapsto> precision))
                 (zip (current_device self # rev ?ds) chosen)
                 (sensor_precision (options self))"
      using ih(4) sp1 ch(1) by (simp add: rev_last_butlast [OF False])
    show ?thesis
      using 1 2 3 4 by blast
  qed
qed

lemma fold_store_dom:
  "dom (fold (\<lambda>(device, precision) m. m(device \<mapsto> precision)) kvs (m :: string \<Rightarrow> pyval option))
     = dom m \<union> fst ` set kvs"
  by (induction kvs arbitrary: m) auto

lemma fold_store_other:
  "k \<notin> fst ` set kvs \<Longrightarrow>
   fold (\<lambda>(device, precision) m. m(device \<mapsto> precision)) kvs (m :: string \<Rightarrow> pyval option) k = m k"
  by (induction kvs arbitrary: m) auto

lemma fold_store_lookup:
  "distinct (map fst kvs) \<Longrightarrow> (k, v) \<in> set kvs \<Longrightarrow>
   fold (\<lambda>(device, precision) m. m(device \<mapsto> precision)) kvs (m :: string \<Rightarrow> pyval option) k = Some v"
proof (induction kvs arbitrary: m)
  case Nil
  then show ?case by simp
next
  case (Cons a kvs)
  show ?case
  proof (cases "(k, v) \<in> set kvs")
    case True
    then show ?thesis using Cons by simp
  next
    case False
    then have a: "a = (k, v)" using Cons.prems(2) by simp
    then have "k \<notin> fst ` set kvs" using Cons.prems(1) by auto
    then have "fold (\<lambda>(device, precision) m. m(device \<mapsto> precision)) kvs (m(k \<mapsto> v)) k
                 = (m(k \<mapsto> v)) k"
      by (rule fold_store_other)
    then show ?thesis using a by (simp del: fun_upd_apply) simp
  qed
qed

lemma count_list_distinct: "distinct xs \<Longrightarrow> x \<in> set xs \<Longrightarrow> count_list xs x = 1"
  by (induction xs) auto

lemma filter_all: "list_all P xs \<Longrightarrow> filter P xs = xs"
  by (induction xs) auto

lemma device_selection_run:
  assumes reg: "device_registry self = Some registry"
    and clear: "submitted ''clear_device_config'' = Some clear" "\<not> truthy clear"
    and sel: "submitted ''ds18b20_device_selection'' = Some (VList labels)"
      "map_result get_device_id_from_long_name labels = Inr ids"
    and no_sp: "submitted ''sensor_precision'' = None"
    and typed: "options self ''sensor_precision'' = None
         \<or> (\<exists>d. options self ''sensor_precision'' = Some (VDict d))"
    and cfgs: "map (\<lambda>c. c ''sensor_precision'') cfgs = map Some chosen"
      "length chosen = length ids"
  shows "\<exists>run final.
           options_steps h ''device_selection'' self (submitted # cfgs) =
             run @ [(Inr (CreateEntry (VStr []) (options final)), final)]
           \<and> list_all (is_form ''ds1820b_device_config'') run
           \<and> map (\<lambda>outcome. current_device (snd outcome)) run = rev ids
           \<and> sensor_precision (options final) =
               fold (\<lambda>(device, precision) m. m(device \<mapsto> precision))
                 (zip (rev ids) chosen) (sensor_precision (options self))"
proof -
  let ?merged = "options self ++ submitted(''ds18b20_device_selection'' \<mapsto> VList ids)"
  let ?self1 = "self\<lparr>options := ?merged\<rparr>"
  have upd: "update_options_dict self submitted = (None, ?self1)"
    using sel by (simp add: update_options_dict_def)
  have m_clear: "?merged ''clear_device_config'' = Some clear"
    using clear(1) by simp
  have m_sel: "?merged ''ds18b20_device_selection'' = Some (VList ids)"
    by simp
  have m_sp: "?merged ''sensor_precision'' = options self ''sensor_precision''"
    using no_sp by (simp add: map_add_def)
  have sp_merged: "sensor_precision ?merged = sensor_precision (options self)"
    using m_sp by (simp add: sensor_precision_def)
  let ?self2 = "?self1\<lparr>devices_to_configure_ds18b20 := ids\<rparr>"
  have step: "async_step_device_selection self (Some submitted) =
                (if ids \<noteq> [] then async_step_ds1820b_device_config ?self2 None
                 else update_options ?self2)"
    using upd m_clear m_sel clear(2)
    by (simp add: async_step_device_selection_def Let_def del: map_add_upd)
  show ?thesis
  proof (cases "ids = []")
    case True
    then have "chosen = []" using cfgs(2) by simp
    then have "cfgs = []" using cfgs(1) by simp
    have 1: "options_steps h ''device_selection'' self (submitted # cfgs) =
               [] @ [(Inr (CreateEntry (VStr []) (options ?self2)), ?self2)]"
      using step True \<open>cfgs = []\<close> by (simp add: options_step_def update_options_def del: map_add_upd)
    have 2: "list_all (is_form ''ds1820b_device_config'') []"
      by simp
    have 3: "map (\<lambda>outcome. current_device (snd outcome)) [] = rev ids"
      using True by simp
    have 4: "sensor_precision (options ?self2) =
               fold (\<lambda>(device, precision) m. m(device \<mapsto> precision))
                 (zip (rev ids) chosen) (sensor_precision (options self))"
      using True sp_merged by simp
    show ?thesis
      using 1 2 3 4 by blast
  next
    case False
    let ?self3 = "?self2\<lparr>current_device := last ids,
                           devices_to_configure_ds18b20 := butlast ids\<rparr>"
    have typed2: "options ?self2 ''sensor_precision'' = None
         \<or> (\<exists>d. options ?self2 ''sensor_precision'' = Some (VDict d))"
      using typed m_sp by simp
    obtain schema placeholders where form:
      "async_step_ds1820b_device_config ?self2 None =
         (Inr (ShowForm ''ds1820b_device_config'' schema None placeholders), ?self3)"
      using device_config_form [of ?self2 registry] reg typed2 False by auto
    have run_eq: "options_steps h ''device_selection'' self (submitted # cfgs) =
            (Inr (ShowForm ''ds1820b_device_config'' schema None placeholders), ?self3)
              # options_steps h ''ds1820b_device_config'' ?self3 cfgs"
      using step False form by (simp add: options_step_def del: map_add_upd)
    have "\<exists>run final.
           options_steps h ''ds1820b_device_config'' ?self3 cfgs =
             run @ [(Inr (CreateEntry (VStr []) (options final)), final)]
           \<and> list_all (is_form ''ds1820b_device_config'') run
           \<and> map (\<lambda>outcome. current_device (snd outcome)) run
               = rev (devices_to_configure_ds18b20 ?self3)
           \<and> sensor_precision (options final) =
               fold (\<lambda>(device, precision) m. m(device \<mapsto> precision))
                 (zip (current_device ?self3 # rev (devices_to_configure_ds18b20 ?self3)) chosen)
                 (sensor_precision (options ?self3))"
    proof (rule device_config_loop)
      show "device_registry ?self3 = Some registry"
        using reg by simp
      show "options ?self3 ''sensor_precision'' = None
         \<or> (\<exists>d. options ?self3 ''sensor_precision'' = Some (VDict d))"
        using typed2 by simp
      show "map (\<lambda>c. c ''sensor_precision'') cfgs = map Some chosen"
        using cfgs(1) .
      show "length chosen = Suc (length (devices_to_configure_ds18b20 ?self3))"
        using cfgs(2) False by simp
    qed
    then obtain run final where lp:
      "options_steps h ''ds1820b_device_config'' ?self3 cfgs =
             run @ [(Inr (CreateEntry (VStr []) (options final)), final)]"
      "list_all (is_form ''ds1820b_device_config'') run"
      "map (\<lambda>outcome. current_device (snd outcome)) run = rev (butlast ids)"
      "sensor_precision (options final) =
               fold (\<lambda>(device, precision) m. m(device \<mapsto> precision))
                 (zip (last ids # rev (butlast ids)) chosen)
                 (sensor_precision ?merged)"
      by auto
    let ?run = "(Inr (ShowForm ''ds1820b_device_config'' schema None placeholders), ?self3) # run"
    have 1: "options_steps h ''device_selection'' self (submitted # cfgs) =
               ?run @ [(Inr (CreateEntry (VStr []) (options final)), final)]"
      using run_eq lp(1) by simp
    have 2: "list_all (is_form ''ds1820b_device_config'') ?run"
      using lp(2) by simp
    have 3: "map (\<lambda>outcome. current_device (snd outcome)) ?run = rev ids"
      using lp(3) by (simp add: rev_last_butlast [OF False])
    have 4: "sensor_precision (options final) =
               fold (\<lambda>(device, precision) m. m(device \<mapsto> precision))
                 (zip (rev ids) chosen) (sensor_precision (options self))"
      using lp(4) sp_merged by (simp add: rev_last_butlast [OF False])
    show ?thesis
      using 1 2 3 4 by blast
  qed
qed

text \<open>
  C3. A run that submits a selection of \<open>N\<close> distinct device ids with
  \<^verbatim>\<open>clear_device_config\<close> false, and then a precision at every form, renders exactly \<open>N\<close>
  device configuration forms and then commits; the committed \<^verbatim>\<open>sensor_precision\<close> has
  exactly the \<open>N\<close> selected ids as its keys, each with the precision submitted at the
  form of that device (the \<open>i\<close>-th form is the one of the \<open>i\<close>-th id from the end). The
  loaded options hold no precision for a device outside the selection, and the
  selection form carries no \<^verbatim>\<open>sensor_precision\<close> of its own.
\<close>

theorem selection_exhaustion:
  assumes "device_registry self = Some registry"
    and "submitted ''clear_device_config'' = Some clear" and "\<not> truthy clear"
    and "submitted ''ds18b20_device_selection'' = Some (VList labels)"
    and "map_result get_device_id_from_long_name labels = Inr ids"
    and "distinct ids"
    and "submitted ''sensor_precision'' = None"
    and "options self ''sensor_precision'' = None
         \<or> (\<exists>d. options self ''sensor_precision'' = Some (VDict d) \<and> dom d \<subseteq> set ids)"
    and "map (\<lambda>c. c ''sensor_precision'') cfgs = map Some chosen"
    and "length chosen = length ids"
  shows "\<exists>run final.
           options_steps h ''device_selection'' self (submitted # cfgs) =
             run @ [(Inr (CreateEntry (VStr []) (options final)), final)]
           \<and> length run = length ids
           \<and> list_all (is_form ''ds1820b_device_config'') run
           \<and> dom (sensor_precision (options final)) = set ids
           \<and> card (dom (sensor_precision (options final))) = length ids
           \<and> (\<forall>i<length ids. sensor_precision (options final) (rev ids ! i) = Some (chosen ! i))"
proof -
  have typed: "options self ''sensor_precision'' = None
         \<or> (\<exists>d. options self ''sensor_precision'' = Some (VDict d))"
    using assms(8) by blast
  have prior: "dom (sensor_precision (options self)) \<subseteq> set ids"
    using assms(8) by (auto simp: sensor_precision_def)
  obtain run final where r:
    "options_steps h ''device_selection'' self (submitted # cfgs) =
             run @ [(Inr (CreateEntry (VStr []) (options final)), final)]"
    "list_all (is_form ''ds1820b_device_config'') run"
    "map (\<lambda>outcome. current_device (snd outcome)) run = rev ids"
    "sensor_precision (options final) =
               fold (\<lambda>(device, precision) m. m(device \<mapsto> precision))
                 (zip (rev ids) chosen) (sensor_precision (options self))"
    using device_selection_run [where self = self and submitted = submitted and h = h,
        OF assms(1) assms(2) assms(3) assms(4) assms(5) assms(7) typed assms(9) assms(10)]
    by blast
  have len: "length run = length ids"
    using r(3) by (metis length_map length_rev)
  have keys: "map fst (zip (rev ids) chosen) = rev ids"
    using assms(10) by (simp add: map_fst_zip)
  then have keyset: "fst ` set (zip (rev ids) chosen) = set ids"
    by (metis set_map set_rev)
  have dom_eq: "dom (sensor_precision (options final)) = set ids"
    using prior keyset by (auto simp: r(4) fold_store_dom)
  have card_eq: "card (dom (sensor_precision (options final))) = length ids"
    using dom_eq assms(6) by (simp add: distinct_card)
  have look: "\<forall>i<length ids. sensor_precision (options final) (rev ids ! i) = Some (chosen ! i)"
  proof (intro allI impI)
    fix i
    assume i: "i < length ids"
    then have "(rev ids ! i, chosen ! i) \<in> set (zip (rev ids) chosen)"
      using assms(10) by (auto simp: set_zip)
    moreover have "distinct (map fst (zip (rev ids) chosen))"
      using keys assms(6) by simp
    ultimately show "sensor_precision (options final) (rev ids ! i) = Some (chosen ! i)"
      unfolding r(4) by (intro fold_store_lookup)
  qed
  show ?thesis
    using r(1) len r(2) dom_eq card_eq look by blast
qed

theorem selection_exhaustion_witness:
  "\<exists>run final.
     (options_steps
       \<lparr> hass_data = Map.empty, dr_async_get = Map.empty, config_entries = [],
         hub_connect = (\<lambda>host port. None), hub_check_mount_dir = (\<lambda>dir. None) \<rparr>
       ''device_selection''
       ((OnewireOptionsFlowHandler
          \<lparr> entry_id = ''e1'', entry_data = Map.empty, entry_options = Map.empty,
            entry_unique_id = None \<rparr>)
        \<lparr>device_registry := Some [''28.BBB'' \<mapsto> \<lparr> name_by_user = Some ''Attic'' \<rparr>]\<rparr>)
       ([''clear_device_config'' \<mapsto> VBool False,
        ''ds18b20_device_selection'' \<mapsto> VList [''28.AAA'', ''Attic (28.BBB)'']]
        # [[''sensor_precision'' \<mapsto> VStr ''Default''], [''sensor_precision'' \<mapsto> VStr ''11 Bits'']]))
       = run @ [(Inr (CreateEntry (VStr []) (options final)), final)]
     \<and> length run = 2
     \<and> dom (sensor_precision (options final)) = {''28.AAA'', ''28.BBB''}
     \<and> sensor_precision (options final) ''28.AAA'' = Some (VStr ''11 Bits'')
     \<and> sensor_precision (options final) ''28.BBB'' = Some (VStr ''Default'')"
proof -
  have "\<exists>run final.
     (options_steps
       \<lparr> hass_data = Map.empty, dr_async_get = Map.empty, config_entries = [],
         hub_connect = (\<lambda>host port. None), hub_check_mount_dir = (\<lambda>dir. None) \<rparr>
       ''device_selection''
       ((OnewireOptionsFlowHandler
          \<lparr> entry_id = ''e1'', entry_data = Map.empty, entry_options = Map.empty,
            entry_unique_id = None \<rparr>)
        \<lparr>device_registry := Some [''28.BBB'' \<mapsto> \<lparr> name_by_user = Some ''Attic'' \<rparr>]\<rparr>)
       ([''clear_device_config'' \<mapsto> VBool False,
        ''ds18b20_device_selection'' \<mapsto> VList [''28.AAA'', ''Attic (28.BBB)'']]
        # [[''sensor_precision'' \<mapsto> VStr ''Default''], [''sensor_precision'' \<mapsto> VStr ''11 Bits'']]))
       = run @ [(Inr (CreateEntry (VStr []) (options final)), final)]
     \<and> length run = length [''28.AAA'', ''28.BBB'']
     \<and> list_all (is_form ''ds1820b_device_config'') run
     \<and> dom (sensor_precision (options final)) = set [''28.AAA'', ''28.BBB'']
     \<and> card (dom (sensor_precision (options final))) = length [''28.AAA'', ''28.BBB'']
     \<and> (\<forall>i<length [''28.AAA'', ''28.BBB''].
           sensor_precision (options final) (rev [''28.AAA'', ''28.BBB''] ! i)
             = Some ([VStr ''Default'', VStr ''11 Bits''] ! i))"
    by (rule selection_exhaustion [where
        h = "\<lparr> hass_data = Map.empty, dr_async_get = Map.empty, config_entries = [],
         hub_connect = (\<lambda>host port. None), hub_check_mount_dir = (\<lambda>dir. None) \<rparr>" and
        self = "((OnewireOptionsFlowHandler
          \<lparr> entry_id = ''e1'', entry_data = Map.empty, entry_options = Map.empty,
            entry_unique_id = None \<rparr>)
        \<lparr>device_registry := Some [''28.BBB'' \<mapsto> \<lparr> name_by_user = Some ''Attic'' \<rparr>]\<rparr>)" and
        registry = "[''28.BBB'' \<mapsto> \<lparr> name_by_user = Some ''Attic'' \<rparr>]" and
        submitted = "[''clear_device_config'' \<mapsto> VBool False,
        ''ds18b20_device_selection'' \<mapsto> VList [''28.AAA'', ''Attic (28.BBB)'']]" and
        clear = "VBool False" and
        labels = "[''28.AAA'', ''Attic (28.BBB)'']" and
        ids = "[''28.AAA'', ''28.BBB'']" and
        cfgs = "[[''sensor_precision'' \<mapsto> VStr ''Default''], [''sensor_precision'' \<mapsto> VStr ''11 Bits'']]" and
        chosen = "[VStr ''Default'', VStr ''11 Bits'']"])
      (simp_all add: OnewireOptionsFlowHandler_def get_device_id_from_long_name_def
        py_index_def py_replace_def)
  then obtain run final where r:
    "(options_steps
       \<lparr> hass_data = Map.empty, dr_async_get = Map.empty, config_entries = [],
         hub_connect = (\<lambda>host port. None), hub_check_mount_dir = (\<lambda>dir. None) \<rparr>
       ''device_selection''
       ((OnewireOptionsFlowHandler
          \<lparr> entry_id = ''e1'', entry_data = Map.empty, entry_options = Map.empty,
            entry_unique_id = None \<rparr>)
        \<lparr>device_registry := Some [''28.BBB'' \<mapsto> \<lparr> name_by_user = Some ''Attic'' \<rparr>]\<rparr>)
       ([''clear_device_config'' \<mapsto> VBool False,
        ''ds18b20_device_selection'' \<mapsto> VList [''28.AAA'', ''Attic (28.BBB)'']]
        # [[''sensor_precision'' \<mapsto> VStr ''Default''], [''sensor_precision'' \<mapsto> VStr ''11 Bits'']]))
       = run @ [(Inr (CreateEntry (VStr []) (options final)), final)]"
    "length run = length [''28.AAA'', ''28.BBB'']"
    "dom (sensor_precision (options final)) = set [''28.AAA'', ''28.BBB'']"
    "\<forall>i<length [''28.AAA'', ''28.BBB''].
           sensor_precision (options final) (rev [''28.AAA'', ''28.BBB''] ! i)
             = Some ([VStr ''Default'', VStr ''11 Bits''] ! i)"
    by blast
  have "sensor_precision (options final) ''28.BBB'' = Some (VStr ''Default'')"
    using r(4) [THEN spec, of 0] by simp
  moreover have "sensor_precision (options final) ''28.AAA'' = Some (VStr ''11 Bits'')"
    using r(4) [THEN spec, of 1] by simp
  moreover have "length run = 2"
    using r(2) by simp
  moreover have "dom (sensor_precision (options final)) = {''28.AAA'', ''28.BBB''}"
    using r(3) by simp
  ultimately show ?thesis
    using r(1) by blast
qed

text \<open>
  C8. The device configuration forms of such a run go through the selected ids from the
  last entry of the selection to the first: the devices visited are the selection
  reversed, the first one visited is the last entry, and each of distinct ids is
  visited exactly once.
\<close>

theorem device_configuration_order:
  assumes "device_registry self = Some registry"
    and "submitted ''clear_device_config'' = Some clear" and "\<not> truthy clear"
    and "submitted ''ds18b20_device_selection'' = Some (VList labels)"
    and "map_result get_device_id_from_long_name labels = Inr ids"
    and "ids \<noteq> []"
    and "submitted ''sensor_precision'' = None"
    and "options self ''sensor_precision'' = None
         \<or> (\<exists>d. options self ''sensor_precision'' = Some (VDict d))"
    and "map (\<lambda>c. c ''sensor_precision'') cfgs = map Some chosen"
    and "length chosen = length ids"
  shows "visited_devices (options_steps h ''device_selection'' self (submitted # cfgs)) = rev ids
         \<and> hd (visited_devices (options_steps h ''device_selection'' self (submitted # cfgs)))
             = last ids
         \<and> (distinct ids \<longrightarrow>
              (\<forall>d\<in>set ids.
                 count_list
                   (visited_devices (options_steps h ''device_selection'' self (submitted # cfgs)))
                   d = 1))"
proof -
  obtain run final where r:
    "options_steps h ''device_selection'' self (submitted # cfgs) =
             run @ [(Inr (CreateEntry (VStr []) (options final)), final)]"
    "list_all (is_form ''ds1820b_device_config'') run"
    "map (\<lambda>outcome. current_device (snd outcome)) run = rev ids"
    using device_selection_run [where self = self and submitted = submitted and h = h,
        OF assms(1) assms(2) assms(3) assms(4) assms(5) assms(7) assms(8) assms(9) assms(10)]
    by blast
  have "filter (is_form ''ds1820b_device_config'') run = run"
    using r(2) by (rule filter_all)
  then have v: "visited_devices (options_steps h ''device_selection'' self (submitted # cfgs))
                  = rev ids"
    unfolding r(1) using r(3) by (simp add: visited_devices_def case_prod_unfold)
  have h: "hd (rev ids) = last ids"
    using assms(6) by (simp add: hd_rev)
  have c: "distinct ids \<longrightarrow> (\<forall>d\<in>set ids. count_list (rev ids) d = 1)"
    by (simp add: count_list_distinct)
  show ?thesis
    using v h c by simp
qed

theorem device_configuration_order_witness:
  "visited_devices
     (options_steps
       \<lparr> hass_data = Map.empty, dr_async_get = Map.empty, config_entries = [],
         hub_connect = (\<lambda>host port. None), hub_check_mount_dir = (\<lambda>dir. None) \<rparr>
       ''device_selection''
       ((OnewireOptionsFlowHandler
          \<lparr> entry_id = ''e1'', entry_data = Map.empty, entry_options = Map.empty,
            entry_unique_id = None \<rparr>)
        \<lparr>device_registry := Some [''28.BBB'' \<mapsto> \<lparr> name_by_user = Some ''Attic'' \<rparr>]\<rparr>)
       ([''clear_device_config'' \<mapsto> VBool False,
        ''ds18b20_device_selection'' \<mapsto> VList [''28.AAA'', ''Attic (28.BBB)'']]
        # [[''sensor_precision'' \<mapsto> VStr ''Default''], [''sensor_precision'' \<mapsto> VStr ''11 Bits'']]))
   = [''28.BBB'', ''28.AAA'']"
proof -
  have "visited_devices
     (options_steps
       \<lparr> hass_data = Map.empty, dr_async_get = Map.empty, config_entries = [],
         hub_connect = (\<lambda>host port. None), hub_check_mount_dir = (\<lambda>dir. None) \<rparr>
       ''device_selection''
       ((OnewireOptionsFlowHandler
          \<lparr> entry_id = ''e1'', entry_data = Map.empty, entry_options = Map.empty,
            entry_unique_id = None \<rparr>)
        \<lparr>device_registry := Some [''28.BBB'' \<mapsto> \<lparr> name_by_user = Some ''Attic'' \<rparr>]\<rparr>)
       ([''clear_device_config'' \<mapsto> VBool False,
        ''ds18b20_device_selection'' \<mapsto> VList [''28.AAA'', ''Attic (28.BBB)'']]
        # [[''sensor_precision'' \<mapsto> VStr ''Default''], [''sensor_precision'' \<mapsto> VStr ''11 Bits'']]))
   = rev [''28.AAA'', ''28.BBB'']"
    by (rule device_configuration_order [where
        h = "\<lparr> hass_data = Map.empty, dr_async_get = Map.empty, config_entries = [],
         hub_connect = (\<lambda>host port. None), hub_check_mount_dir = (\<lambda>dir. None) \<rparr>" and
        self = "((OnewireOptionsFlowHandler
          \<lparr> entry_id = ''e1'', entry_data = Map.empty, entry_options = Map.empty,
            entry_unique_id = None \<rparr>)
        \<lparr>device_registry := Some [''28.BBB'' \<mapsto> \<lparr> name_by_user = Some ''Attic'' \<rparr>]\<rparr>)" and
        registry = "[''28.BBB'' \<mapsto> \<lparr> name_by_user = Some ''Attic'' \<rparr>]" and
        submitted = "[''clear_device_config'' \<mapsto> VBool False,
        ''ds18b20_device_selection'' \<mapsto> VList [''28.AAA'', ''Attic (28.BBB)'']]" and
        clear = "VBool False" and
        labels = "[''28.AAA'', ''Attic (28.BBB)'']" and
        ids = "[''28.AAA'', ''28.BBB'']" and
        cfgs = "[[''sensor_precision'' \<mapsto> VStr ''Default''], [''sensor_precision'' \<mapsto> VStr ''11 Bits'']]" and
        chosen = "[VStr ''Default'', VStr ''11 Bits'']", THEN conjunct1])
      (simp_all add: OnewireOptionsFlowHandler_def get_device_id_from_long_name_def
        py_index_def py_replace_def)
  then show ?thesis
    by simp
qed

section \<open>The setup wizard\<close>

lemma submitted_not_empty: "submitted k = Some v \<Longrightarrow> submitted \<noteq> Map.empty"
  by auto

lemma owserver_duplicate_aborts:
  assumes "entry \<in> set (config_entries h)"
    and "entry_data entry CONF_TYPE = Some (CStr CONF_TYPE_OWSERVER)"
    and "entry_data entry CONF_HOST = Some host" and "entry_data entry CONF_PORT = Some port"
    and "submitted CONF_HOST = Some host" and "submitted CONF_PORT = Some port"
  shows "async_step_owserver h self (Some submitted)
           = (Inl (AbortFlow ''already_configured''), self, [])"
proof -
  have "async_abort_entries_match h
      [(CONF_TYPE, CStr CONF_TYPE_OWSERVER), (CONF_HOST, host), (CONF_PORT, port)]
      = Some (AbortFlow ''already_configured'')"
    using assms(1-4) by (auto simp: async_abort_entries_match_def list_ex_iff)
  moreover have "submitted \<noteq> Map.empty"
    using assms(5) by (rule submitted_not_empty)
  ultimately show ?thesis
    using assms(5,6) by (simp add: async_step_owserver_def)
qed

lemma mount_dir_duplicate_aborts:
  assumes "entry \<in> set (config_entries h)"
    and "entry_unique_id entry = Some (CONF_TYPE_SYSBUS @ '':'' @ py_str mount_dir)"
    and "submitted CONF_MOUNT_DIR = Some mount_dir"
  shows "async_step_mount_dir h self (Some submitted)
           = (Inl (AbortFlow ''already_configured''),
              self\<lparr>unique_id := Some (CONF_TYPE_SYSBUS @ '':'' @ py_str mount_dir)\<rparr>, [])"
proof -
  have "abort_if_unique_id_configured h
       (self\<lparr>unique_id := Some (CONF_TYPE_SYSBUS @ '':'' @ py_str mount_dir)\<rparr>)
      = Some (AbortFlow ''already_configured'')"
    using assms(1,2) by (auto simp: abort_if_unique_id_configured_def list_ex_iff)
  moreover have "submitted \<noteq> Map.empty"
    using assms(3) by (rule submitted_not_empty)
  ultimately show ?thesis
    using assms(3) by (simp add: async_step_mount_dir_def async_set_unique_id_def)
qed

lemma owserver_completed:
  assumes "async_step_owserver h self (Some submitted) = (Inr (CreateEntry title data), self', calls)"
  shows "\<exists>host port. submitted CONF_HOST = Some host \<and> submitted CONF_PORT = Some port
           \<and> data = onewire_config self ++ submitted \<and> calls = [Connect host port]
           \<and> hub_connect h host port = None"
  using assms
  by (auto simp: async_step_owserver_def validate_input_owserver_def Let_def
      split: option.splits if_splits)

lemma second_owserver_session_aborts:
  assumes "async_step_owserver h self (Some submitted) = (Inr (CreateEntry title data), self', calls)"
    and "onewire_config self CONF_TYPE = Some (CStr CONF_TYPE_OWSERVER)"
    and "submitted CONF_TYPE = None"
  shows "async_step_owserver (persist h new_id (async_step_owserver h self (Some submitted)))
           other (Some submitted)
         = (Inl (AbortFlow ''already_configured''), other, [])"
proof -
  obtain host port where hp: "submitted CONF_HOST = Some host" "submitted CONF_PORT = Some port"
    "data = onewire_config self ++ submitted"
    using owserver_completed [OF assms(1)] by blast
  let ?entry = "\<lparr> entry_id = new_id, entry_data = data, entry_options = Map.empty,
                  entry_unique_id = unique_id self' \<rparr>"
  let ?h = "persist h new_id (async_step_owserver h self (Some submitted))"
  have "?entry \<in> set (config_entries ?h)"
    by (simp add: assms(1) persist_def)
  moreover have "entry_data ?entry CONF_TYPE = Some (CStr CONF_TYPE_OWSERVER)"
    using hp(3) assms(2,3) by (simp add: map_add_def)
  moreover have "entry_data ?entry CONF_HOST = Some host" "entry_data ?entry CONF_PORT = Some port"
    using hp by (simp_all add: map_add_def)
  ultimately show ?thesis
    using hp(1,2) by (intro owserver_duplicate_aborts [where entry = ?entry and host = host and port = port])
qed

lemma mount_dir_completed:
  assumes "async_step_mount_dir h self (Some submitted) = (Inr (CreateEntry title data), self', calls)"
  shows "\<exists>mount_dir. submitted CONF_MOUNT_DIR = Some mount_dir
           \<and> unique_id self' = Some (CONF_TYPE_SYSBUS @ '':'' @ py_str mount_dir)
           \<and> calls = [CheckMountDir mount_dir]"
  using assms
  by (auto simp: async_step_mount_dir_def validate_input_mount_dir_def Let_def
      async_set_unique_id_def split: option.splits if_splits)

lemma second_mount_dir_session_aborts:
  assumes "async_step_mount_dir h self (Some submitted) = (Inr (CreateEntry title data), self', calls)"
  shows "fst (async_step_mount_dir (persist h new_id (async_step_mount_dir h self (Some submitted)))
           other (Some submitted))
         = Inl (AbortFlow ''already_configured'')
       \<and> snd (snd (async_step_mount_dir (persist h new_id (async_step_mount_dir h self (Some submitted)))
           other (Some submitted))) = []"
proof -
  obtain mount_dir where md: "submitted CONF_MOUNT_DIR = Some mount_dir"
    "unique_id self' = Some (CONF_TYPE_SYSBUS @ '':'' @ py_str mount_dir)"
    using mount_dir_completed [OF assms(1)] by blast
  let ?entry = "\<lparr> entry_id = new_id, entry_data = data, entry_options = Map.empty,
                  entry_unique_id = unique_id self' \<rparr>"
  let ?h = "persist h new_id (async_step_mount_dir h self (Some submitted))"
  have "?entry \<in> set (config_entries ?h)"
    by (simp add: assms(1) persist_def)
  moreover have "entry_unique_id ?entry = Some (CONF_TYPE_SYSBUS @ '':'' @ py_str mount_dir)"
    using md(2) by simp
  ultimately have "async_step_mount_dir ?h other (Some submitted)
           = (Inl (AbortFlow ''already_configured''),
              other\<lparr>unique_id := Some (CONF_TYPE_SYSBUS @ '':'' @ py_str mount_dir)\<rparr>, [])"
    using md(1) by (intro mount_dir_duplicate_aborts [where entry = ?entry])
  then show ?thesis by simp
qed

text \<open>
  C2. A gateway submission whose type, host and port are those of a persisted entry, and
  a filesystem submission whose unique id \<^verbatim>\<open>SysBus:<mount_dir>\<close> is that of a persisted
  entry, abort with \<^verbatim>\<open>already_configured\<close> and no call to the hub has been made.
\<close>

theorem duplicate_aborts_before_validation:
  "(entry \<in> set (config_entries h)
      \<and> entry_data entry CONF_TYPE = Some (CStr CONF_TYPE_OWSERVER)
      \<and> entry_data entry CONF_HOST = Some host \<and> entry_data entry CONF_PORT = Some port
      \<and> submitted CONF_HOST = Some host \<and> submitted CONF_PORT = Some port
     \<longrightarrow> async_step_owserver h self (Some submitted)
           = (Inl (AbortFlow ''already_configured''), self, []))
   \<and> (entry \<in> set (config_entries h)
      \<and> entry_unique_id entry = Some (CONF_TYPE_SYSBUS @ '':'' @ mount_dir)
      \<and> submitted CONF_MOUNT_DIR = Some (CStr mount_dir)
     \<longrightarrow> async_step_mount_dir h self (Some submitted)
           = (Inl (AbortFlow ''already_configured''),
              self\<lparr>unique_id := Some (CONF_TYPE_SYSBUS @ '':'' @ mount_dir)\<rparr>, []))"
proof (intro conjI impI)
  assume "entry \<in> set (config_entries h)
      \<and> entry_data entry CONF_TYPE = Some (CStr CONF_TYPE_OWSERVER)
      \<and> entry_data entry CONF_HOST = Some host \<and> entry_data entry CONF_PORT = Some port
      \<and> submitted CONF_HOST = Some host \<and> submitted CONF_PORT = Some port"
  then show "async_step_owserver h self (Some submitted)
           = (Inl (AbortFlow ''already_configured''), self, [])"
    using owserver_duplicate_aborts [where entry = entry and h = h and host = host and port = port
        and submitted = submitted and self = self]
    by blast
next
  assume a: "entry \<in> set (config_entries h)
      \<and> entry_unique_id entry = Some (CONF_TYPE_SYSBUS @ '':'' @ mount_dir)
      \<and> submitted CONF_MOUNT_DIR = Some (CStr mount_dir)"
  have "py_str (CStr mount_dir) = mount_dir"
    by (simp add: py_str_def)
  then show "async_step_mount_dir h self (Some submitted)
           = (Inl (AbortFlow ''already_configured''),
              self\<lparr>unique_id := Some (CONF_TYPE_SYSBUS @ '':'' @ mount_dir)\<rparr>, [])"
    using a mount_dir_duplicate_aborts [where entry = entry and h = h
        and mount_dir = "CStr mount_dir" and submitted = submitted and self = self]
    by simp
qed

theorem duplicate_aborts_before_validation_witness:
  "async_step_owserver
     \<lparr> hass_data = Map.empty, dr_async_get = Map.empty,
       config_entries =
         [\<lparr> entry_id = ''e1'',
            entry_data = [CONF_TYPE \<mapsto> CStr CONF_TYPE_OWSERVER,
                          CONF_HOST \<mapsto> CStr ''localhost'', CONF_PORT \<mapsto> CInt 4304],
            entry_options = Map.empty, entry_unique_id = None \<rparr>],
       hub_connect = (\<lambda>host port. None), hub_check_mount_dir = (\<lambda>dir. None) \<rparr>
     (OneWireFlowHandler\<lparr>onewire_config := [CONF_TYPE \<mapsto> CStr CONF_TYPE_OWSERVER]\<rparr>)
     (Some [CONF_HOST \<mapsto> CStr ''localhost'', CONF_PORT \<mapsto> CInt 4304])
   = (Inl (AbortFlow ''already_configured''),
      OneWireFlowHandler\<lparr>onewire_config := [CONF_TYPE \<mapsto> CStr CONF_TYPE_OWSERVER]\<rparr>, [])
   \<and> async_step_mount_dir
     \<lparr> hass_data = Map.empty, dr_async_get = Map.empty,
       config_entries =
         [\<lparr> entry_id = ''e2'',
            entry_data = [CONF_TYPE \<mapsto> CStr CONF_TYPE_SYSBUS,
                          CONF_MOUNT_DIR \<mapsto> CStr ''/sys/bus/w1/devices/''],
            entry_options = Map.empty,
            entry_unique_id = Some ''SysBus:/sys/bus/w1/devices/'' \<rparr>],
       hub_connect = (\<lambda>host port. None), hub_check_mount_dir = (\<lambda>dir. None) \<rparr>
     (OneWireFlowHandler\<lparr>onewire_config := [CONF_TYPE \<mapsto> CStr CONF_TYPE_SYSBUS]\<rparr>)
     (Some [CONF_MOUNT_DIR \<mapsto> CStr ''/sys/bus/w1/devices/''])
   = (Inl (AbortFlow ''already_configured''),
      OneWireFlowHandler\<lparr>onewire_config := [CONF_TYPE \<mapsto> CStr CONF_TYPE_SYSBUS],
                          unique_id := Some ''SysBus:/sys/bus/w1/devices/''\<rparr>, [])"
  using duplicate_aborts_before_validation [where
      entry = "\<lparr> entry_id = ''e1'',
            entry_data = [CONF_TYPE \<mapsto> CStr CONF_TYPE_OWSERVER,
                          CONF_HOST \<mapsto> CStr ''localhost'', CONF_PORT \<mapsto> CInt 4304],
            entry_options = Map.empty, entry_unique_id = None \<rparr>" and
      h = "\<lparr> hass_data = Map.empty, dr_async_get = Map.empty,
       config_entries =
         [\<lparr> entry_id = ''e1'',
            entry_data = [CONF_TYPE \<mapsto> CStr CONF_TYPE_OWSERVER,
                          CONF_HOST \<mapsto> CStr ''localhost'', CONF_PORT \<mapsto> CInt 4304],
            entry_options = Map.empty, entry_unique_id = None \<rparr>],
       hub_connect = (\<lambda>host port. None), hub_check_mount_dir = (\<lambda>dir. None) \<rparr>" and
      host = "CStr ''localhost''" and port = "CInt 4304" and
      submitted = "[CONF_HOST \<mapsto> CStr ''localhost'', CONF_PORT \<mapsto> CInt 4304]" and
      self = "OneWireFlowHandler\<lparr>onewire_config := [CONF_TYPE \<mapsto> CStr CONF_TYPE_OWSERVER]\<rparr>",
      THEN conjunct1]
    duplicate_aborts_before_validation [where
      entry = "\<lparr> entry_id = ''e2'',
            entry_data = [CONF_TYPE \<mapsto> CStr CONF_TYPE_SYSBUS,
                          CONF_MOUNT_DIR \<mapsto> CStr ''/sys/bus/w1/devices/''],
            entry_options = Map.empty,
            entry_unique_id = Some ''SysBus:/sys/bus/w1/devices/'' \<rparr>" and
      h = "\<lparr> hass_data = Map.empty, dr_async_get = Map.empty,
       config_entries =
         [\<lparr> entry_id = ''e2'',
            entry_data = [CONF_TYPE \<mapsto> CStr CONF_TYPE_SYSBUS,
                          CONF_MOUNT_DIR \<mapsto> CStr ''/sys/bus/w1/devices/''],
            entry_options = Map.empty,
            entry_unique_id = Some ''SysBus:/sys/bus/w1/devices/'' \<rparr>],
       hub_connect = (\<lambda>host port. None), hub_check_mount_dir = (\<lambda>dir. None) \<rparr>" and
      mount_dir = "''/sys/bus/w1/devices/''" and
      submitted = "[CONF_MOUNT_DIR \<mapsto> CStr ''/sys/bus/w1/devices/'']" and
      self = "OneWireFlowHandler\<lparr>onewire_config := [CONF_TYPE \<mapsto> CStr CONF_TYPE_SYSBUS]\<rparr>",
      THEN conjunct2]
  by simp

text \<open>
  C6, as stated, fails: after \<^verbatim>\<open>CannotConnect\<close> for \<^verbatim>\<open>example.org:1234\<close> the form returned
  has the error \<^verbatim>\<open>cannot_connect\<close> and the defaults \<^verbatim>\<open>localhost\<close> and \<^verbatim>\<open>4304\<close>, not the values
  submitted.
\<close>

theorem cannot_connect_counterexample:
  "fst (async_step_owserver
     \<lparr> hass_data = Map.empty, dr_async_get = Map.empty, config_entries = [],
       hub_connect = (\<lambda>host port. Some CannotConnect), hub_check_mount_dir = (\<lambda>dir. None) \<rparr>
     (OneWireFlowHandler\<lparr>onewire_config := [CONF_TYPE \<mapsto> CStr CONF_TYPE_OWSERVER]\<rparr>)
     (Some [CONF_HOST \<mapsto> CStr ''example.org'', CONF_PORT \<mapsto> CInt 1234]))
   = Inr (ShowForm ''owserver'' DATA_SCHEMA_OWSERVER (Some [''base'' \<mapsto> ''cannot_connect'']) None)
   \<and> schema_default DATA_SCHEMA_OWSERVER CONF_HOST = Some (CStr ''localhost'')
   \<and> schema_default DATA_SCHEMA_OWSERVER CONF_PORT = Some (CInt 4304)
   \<and> schema_default DATA_SCHEMA_OWSERVER CONF_HOST \<noteq> Some (CStr ''example.org'')
   \<and> schema_default DATA_SCHEMA_OWSERVER CONF_PORT \<noteq> Some (CInt 1234)"
proof -
  have "fst (async_step_owserver
     \<lparr> hass_data = Map.empty, dr_async_get = Map.empty, config_entries = [],
       hub_connect = (\<lambda>host port. Some CannotConnect), hub_check_mount_dir = (\<lambda>dir. None) \<rparr>
     (OneWireFlowHandler\<lparr>onewire_config := [CONF_TYPE \<mapsto> CStr CONF_TYPE_OWSERVER]\<rparr>)
     (Some [CONF_HOST \<mapsto> CStr ''example.org'', CONF_PORT \<mapsto> CInt 1234]))
   = Inr (ShowForm ''owserver'' DATA_SCHEMA_OWSERVER (Some [''base'' \<mapsto> ''cannot_connect'']) None)"
    by (simp add: async_step_owserver_def validate_input_owserver_def
        async_abort_entries_match_def)
  then show ?thesis
    by (simp add: DATA_SCHEMA_OWSERVER_def)
qed

text \<open>
  C6, amended. When \<^verbatim>\<open>connect\<close> raises \<^verbatim>\<open>CannotConnect\<close>, the step returns the gateway form
  again with the error \<^verbatim>\<open>cannot_connect\<close>; the form is the static schema with the
  defaults \<^verbatim>\<open>localhost\<close> and \<^verbatim>\<open>4304\<close>, and the submitted host and port are kept in the
  pending configuration of the wizard.
\<close>

theorem cannot_connect_rerenders_static_form:
  assumes "submitted CONF_HOST = Some host" and "submitted CONF_PORT = Some port"
    and "async_abort_entries_match h
           [(CONF_TYPE, CStr CONF_TYPE_OWSERVER), (CONF_HOST, host), (CONF_PORT, port)] = None"
    and "hub_connect h host port = Some CannotConnect"
  shows "async_step_owserver h self (Some submitted) =
           (Inr (ShowForm ''owserver'' DATA_SCHEMA_OWSERVER
                   (Some [''base'' \<mapsto> ''cannot_connect'']) None),
            self\<lparr>onewire_config := onewire_config self ++ submitted\<rparr>,
            [Connect host port])
         \<and> schema_default DATA_SCHEMA_OWSERVER CONF_HOST = Some (CStr DEFAULT_OWSERVER_HOST)
         \<and> schema_default DATA_SCHEMA_OWSERVER CONF_PORT = Some (CInt DEFAULT_OWSERVER_PORT)"
proof -
  have "submitted \<noteq> Map.empty"
    using assms(1) submitted_not_empty by blast
  then show ?thesis
    using assms
    by (simp add: async_step_owserver_def validate_input_owserver_def DATA_SCHEMA_OWSERVER_def)
qed

theorem cannot_connect_rerenders_static_form_witness:
  "async_step_owserver
     \<lparr> hass_data = Map.empty, dr_async_get = Map.empty, config_entries = [],
       hub_connect = (\<lambda>host port. Some CannotConnect), hub_check_mount_dir = (\<lambda>dir. None) \<rparr>
     (OneWireFlowHandler\<lparr>onewire_config := [CONF_TYPE \<mapsto> CStr CONF_TYPE_OWSERVER]\<rparr>)
     (Some [CONF_HOST \<mapsto> CStr ''10.0.0.7'', CONF_PORT \<mapsto> CInt 4305])
   = (Inr (ShowForm ''owserver'' DATA_SCHEMA_OWSERVER (Some [''base'' \<mapsto> ''cannot_connect'']) None),
      OneWireFlowHandler\<lparr>onewire_config :=
        [CONF_TYPE \<mapsto> CStr CONF_TYPE_OWSERVER, CONF_HOST \<mapsto> CStr ''10.0.0.7'',
         CONF_PORT \<mapsto> CInt 4305]\<rparr>,
      [Connect (CStr ''10.0.0.7'') (CInt 4305)])"
  using cannot_connect_rerenders_static_form [of
      "[CONF_HOST \<mapsto> CStr ''10.0.0.7'', CONF_PORT \<mapsto> CInt 4305]"
      "CStr ''10.0.0.7''" "CInt 4305"
      "\<lparr> hass_data = Map.empty, dr_async_get = Map.empty, config_entries = [],
       hub_connect = (\<lambda>host port. Some CannotConnect), hub_check_mount_dir = (\<lambda>dir. None) \<rparr>"
      "OneWireFlowHandler\<lparr>onewire_config := [CONF_TYPE \<mapsto> CStr CONF_TYPE_OWSERVER]\<rparr>",
      THEN conjunct1]
  by (simp add: async_abort_entries_match_def)

end
